theory Spec2Isabelle
  imports Main
begin

section \<open>The Puppeteer pool: data model\<close>

text \<open>
  The development embeds the class \<open>PuppeteerPool\<close> (and \<open>PuppeteerInstance\<close>) of the
  package. The pool is single-threaded and event driven: every callback, every
  \<open>.then\<close> reaction and every stretch of an \<open>async\<close> function between two \<open>await\<close>s
  runs to completion before the next one starts. The model therefore has one function
  per source function (or per run-to-completion block of it), working on an explicit
  pool state, and a step function that lets the environment pick the next block.

  Identities. A \<open>PuppeteerInstance\<close> object is created only by \<open>_launchInstance\<close>, with
  \<open>id = browserCounter++\<close>, so the id is the address of the object in the store
  \<open>instances\<close>. Browser objects, child processes and pages belong to the environment and
  are represented by abstract identities (the code compares browsers with \<open>===\<close>).
  JavaScript numbers are modelled as unbounded integers: counters and ids are far below
  \<open>2^53\<close>, and the configured limits are taken to be integers.
\<close>

type_synonym instance_id = nat
type_synonym browser = nat
type_synonym child_process = nat
type_synonym page = nat
type_synonym path = string
type_synonym millis = int

datatype error = Error string

datatype 'a promise = Pending | Fulfilled 'a | Rejected error

datatype target_type = Page | Other | ServiceWorker | BackgroundPage | BrowserTarget

datatype signal = SIGINT | SIGKILL

text \<open>\<open>class PuppeteerInstance\<close>; \<open>None\<close> stands for \<open>null\<close>.\<close>

record puppeteer_instance =
  instId :: instance_id
  activePages :: int
  totalPages :: int
  browserPromise :: "browser promise"
  lastPageOpenedAt :: millis
  killed :: bool
  childProcess :: "child_process option"
  recycleDiskCacheDir :: "path option"

definition new_PuppeteerInstance :: "instance_id \<Rightarrow> browser promise \<Rightarrow> millis \<Rightarrow> puppeteer_instance" where
  "new_PuppeteerInstance i bp now =
     \<lparr>instId = i, activePages = 0, totalPages = 0, browserPromise = bp,
      lastPageOpenedAt = now, killed = False, childProcess = None,
      recycleDiskCacheDir = None\<rparr>"

text \<open>
  What the pool does to the outside world, in the order it does it: log records, calls
  of external functions, and the values with which the promises returned by the public
  methods settle.
\<close>

datatype effect =
    LogDebug string
  | LogWarning string
  | LogError string
  | LogException string
  | MkdtempCalled instance_id
  | LaunchCalled instance_id "string list"
  | PageRequested browser
  | PagesRequested browser
  | CloseRequested browser
  | PageOnceError page
  | PageCloseRequested page
  | ProcessKill child_process signal
  | DeleteDir path
  | ClearInterval
  | RemoveSigintListener
  | NewPageReturned "error + page"
  | RetireReturned "error + unit"
  | DestroyReturned nat "error + unit"

text \<open>
  Pending continuations: a timer that has been set, or a reaction waiting for a promise.
  Each carries the variables its closure captured.
\<close>

datatype task =
    AwaitMkdtemp instance_id
  | AwaitLaunch instance_id "path option"
  | AwaitLaunchCatch instance_id
  | AwaitBrowserForPage instance_id
  | AwaitPage instance_id
  | PageErrorHandler page instance_id
  | AwaitPageClose page instance_id
  | PageCloseKillTimer instance_id
  | AwaitBrowserForPages instance_id
  | AwaitPages instance_id
  | ProcessKillTimer instance_id "child_process option"
  | AwaitBrowserForKill instance_id
  | AwaitCloseForKill instance_id
  | AwaitFilter browser "instance_id list"
  | CloseInFlight browser

text \<open>
  One call of \<open>destroy\<close>: the promise chains of \<open>closePromises\<close>, one per instance, and
  the progress of the chain behind \<open>Promise.all(closePromises)\<close>.
\<close>

datatype chain =
    ChainAwaitBrowser instance_id
  | ChainAwaitDelete path
  | ChainSettled "error + unit"

datatype destroy_phase = AwaitingCloses | Draining nat "(error + unit) list" | Returned

record destroy_job =
  chains :: "chain list"
  phase :: destroy_phase

text \<open>\<open>LaunchPuppeteerOptions\<close> (the fields the pool reads) and the options of the pool;
  \<open>None\<close> is \<open>undefined\<close>.\<close>

record launch_puppeteer_options =
  headless :: "bool option"
  devtools :: "bool option"
  args :: "string list option"

record pool_options =
  opt_maxOpenPagesPerInstance :: "int option"
  opt_retireInstanceAfterRequestCount :: "int option"
  opt_abortInstanceAfterRequestCount :: "int option"
  opt_instanceKillerIntervalMillis :: "int option"
  opt_killInstanceAfterMillis :: "int option"
  opt_launchPuppeteerOptions :: "launch_puppeteer_options option"
  opt_recycleDiskCache :: "bool option"

text \<open>
  The pool. The objects \<open>activeInstances\<close> and \<open>retiredInstances\<close> map an id to the
  instance object with that id; they are kept as the list of their keys in the order
  JavaScript enumerates integer keys (ascending). \<open>recycleDiskCache\<close> and
  \<open>launchPuppeteerOptions\<close> are the constructor's local variables, captured by the
  closure \<open>this.launchPuppeteerFunction\<close>. \<open>browserDir\<close> is the property
  \<open>recycleDiskCacheDir\<close> that the closure writes on browser objects.
\<close>

record puppeteer_pool =
  maxOpenPagesPerInstance :: int
  retireInstanceAfterRequestCount :: int
  killInstanceAfterMillis :: int
  instanceKillerIntervalMillis :: int
  recycleDiskCache :: bool
  launchPuppeteerOptions :: "launch_puppeteer_options option"
  recycledDiskCacheDirs :: "path list option"
  browserCounter :: nat
  activeInstances :: "instance_id list"
  retiredInstances :: "instance_id list"
  instances :: "instance_id \<Rightarrow> puppeteer_instance"
  browserDir :: "browser \<Rightarrow> path option"
  instanceKillerInterval :: bool
  sigintListener :: bool
  tasks :: "task list"
  destroyJobs :: "destroy_job list"
  effects :: "effect list"

section \<open>JavaScript helpers\<close>

definition truthy_num :: "int option \<Rightarrow> bool" where
  "truthy_num v = (case v of None \<Rightarrow> False | Some n \<Rightarrow> n \<noteq> 0)"

definition truthy_bool :: "bool option \<Rightarrow> bool" where
  "truthy_bool v = (case v of None \<Rightarrow> False | Some b \<Rightarrow> b)"

definition truthy_path :: "path option \<Rightarrow> bool" where
  "truthy_path v = (case v of None \<Rightarrow> False | Some d \<Rightarrow> d \<noteq> [])"

definition obj_set :: "instance_id \<Rightarrow> instance_id list \<Rightarrow> instance_id list" where
  "obj_set i ks = (if i \<in> set ks then ks else insort i ks)"

definition obj_delete :: "instance_id \<Rightarrow> instance_id list \<Rightarrow> instance_id list" where
  "obj_delete i ks = removeAll i ks"

definition emit :: "effect list \<Rightarrow> puppeteer_pool \<Rightarrow> puppeteer_pool" where
  "emit es s = s\<lparr>effects := effects s @ es\<rparr>"

definition add_tasks :: "task list \<Rightarrow> puppeteer_pool \<Rightarrow> puppeteer_pool" where
  "add_tasks ts s = s\<lparr>tasks := tasks s @ ts\<rparr>"

definition remove_task :: "task \<Rightarrow> puppeteer_pool \<Rightarrow> puppeteer_pool" where
  "remove_task t s = s\<lparr>tasks := remove1 t (tasks s)\<rparr>"

definition update_instance ::
  "instance_id \<Rightarrow> (puppeteer_instance \<Rightarrow> puppeteer_instance) \<Rightarrow> puppeteer_pool \<Rightarrow> puppeteer_pool" where
  "update_instance i f s = s\<lparr>instances := (instances s)(i := f (instances s i))\<rparr>"

text \<open>Settled promises as values: \<open>.then(f)\<close>, \<open>.catch(h)\<close> and \<open>Promise.all\<close>.\<close>

definition promise_then :: "error + 'a \<Rightarrow> ('a \<Rightarrow> error + 'b) \<Rightarrow> error + 'b" where
  "promise_then r f = (case r of Inl e \<Rightarrow> Inl e | Inr v \<Rightarrow> f v)"

definition promise_catch :: "error + 'a \<Rightarrow> (error \<Rightarrow> error + 'a) \<Rightarrow> error + 'a" where
  "promise_catch r h = (case r of Inl e \<Rightarrow> h e | Inr v \<Rightarrow> Inr v)"

fun promise_all :: "(error + 'a) list \<Rightarrow> error + 'a list" where
  "promise_all [] = Inr []"
| "promise_all (Inl e # rs) = Inl e"
| "promise_all (Inr v # rs) = (case promise_all rs of Inl e \<Rightarrow> Inl e | Inr vs \<Rightarrow> Inr (v # vs))"

section \<open>The constructor\<close>

definition DEFAULT_maxOpenPagesPerInstance :: int where
  "DEFAULT_maxOpenPagesPerInstance = 50"

definition DEFAULT_retireInstanceAfterRequestCount :: int where
  "DEFAULT_retireInstanceAfterRequestCount = 100"

definition DEFAULT_instanceKillerIntervalMillis :: int where
  "DEFAULT_instanceKillerIntervalMillis = 60 * 1000"

definition DEFAULT_killInstanceAfterMillis :: int where
  "DEFAULT_killInstanceAfterMillis = 5 * 60 * 1000"

definition deprecated_warning :: string where
  "deprecated_warning =
     ''PuppeteerPool: Parameter `abortInstanceAfterRequestCount` is deprecated! Use `retireInstanceAfterRequestCount` instead!''"

definition headful_warning :: string where
  "headful_warning =
     ''PuppeteerPool: The \"recycleDiskCache\" is currently only supported in headful mode. Disk cache will not be recycled.''"

text \<open>The condition of the \<open>if\<close> that guards the headful-mode warning.\<close>

definition headless_config :: "launch_puppeteer_options option \<Rightarrow> bool" where
  "headless_config lpo =
     (case lpo of
        None \<Rightarrow> True
      | Some opts \<Rightarrow>
          truthy_bool (headless opts) \<or> (headless opts = None \<and> \<not> truthy_bool (devtools opts)))"

definition constructor :: "pool_options \<Rightarrow> puppeteer_pool" where
  "constructor opts =
     (let deprecated = \<not> truthy_num (opt_retireInstanceAfterRequestCount opts)
                       \<and> truthy_num (opt_abortInstanceAfterRequestCount opts);
          retireOpt = (if deprecated then opt_abortInstanceAfterRequestCount opts
                       else opt_retireInstanceAfterRequestCount opts);
          recycle = truthy_bool (opt_recycleDiskCache opts);
          lpo = opt_launchPuppeteerOptions opts
      in \<lparr>maxOpenPagesPerInstance =
            (case opt_maxOpenPagesPerInstance opts of
               None \<Rightarrow> DEFAULT_maxOpenPagesPerInstance | Some n \<Rightarrow> n),
          retireInstanceAfterRequestCount =
            (case retireOpt of None \<Rightarrow> DEFAULT_retireInstanceAfterRequestCount | Some n \<Rightarrow> n),
          killInstanceAfterMillis =
            (case opt_killInstanceAfterMillis opts of
               None \<Rightarrow> DEFAULT_killInstanceAfterMillis | Some n \<Rightarrow> n),
          instanceKillerIntervalMillis =
            (case opt_instanceKillerIntervalMillis opts of
               None \<Rightarrow> DEFAULT_instanceKillerIntervalMillis | Some n \<Rightarrow> n),
          recycleDiskCache = recycle,
          launchPuppeteerOptions = lpo,
          recycledDiskCacheDirs = (if recycle then Some [] else None),
          browserCounter = 0,
          activeInstances = [],
          retiredInstances = [],
          instances = (\<lambda>i. new_PuppeteerInstance i Pending 0),
          browserDir = (\<lambda>b. None),
          instanceKillerInterval = True,
          sigintListener = True,
          tasks = [],
          destroyJobs = [],
          effects =
            (if deprecated then [LogWarning deprecated_warning] else [])
            @ (if recycle \<and> headless_config lpo then [LogWarning headful_warning] else [])\<rparr>)"

section \<open>Launching an instance\<close>

definition disk_cache_arg :: "path \<Rightarrow> string" where
  "disk_cache_arg d = ''--disk-cache-dir='' @ d"

text \<open>\<open>options.args\<close> after the two \<open>_.clone\<close> calls.\<close>

definition launch_args :: "puppeteer_pool \<Rightarrow> string list" where
  "launch_args s =
     (case launchPuppeteerOptions s of
        None \<Rightarrow> []
      | Some opts \<Rightarrow> (case args opts of None \<Rightarrow> [] | Some a \<Rightarrow> a))"

text \<open>
  \<open>this.launchPuppeteerFunction\<close>, from its call to its first \<open>await\<close>. The result is the
  state of the promise it returns. With a recycled directory at hand there is no
  \<open>await\<close> before the user's launch function is called; with an empty list the
  function waits for \<open>mkdtempAsync\<close>. Reading \<open>length\<close> of \<open>null\<close> throws, which rejects
  the promise of an \<open>async\<close> function.
\<close>

definition launchPuppeteerFunction ::
  "instance_id \<Rightarrow> puppeteer_pool \<Rightarrow> browser promise \<times> puppeteer_pool" where
  "launchPuppeteerFunction i s =
     (if recycleDiskCache s then
        (case recycledDiskCacheDirs s of
           None \<Rightarrow> (Rejected (Error ''TypeError''), s)
         | Some [] \<Rightarrow> (Pending, add_tasks [AwaitMkdtemp i] (emit [MkdtempCalled i] s))
         | Some (d # ds) \<Rightarrow>
             (Pending,
              add_tasks [AwaitLaunch i (Some d)]
                (emit [LaunchCalled i (launch_args s @ [disk_cache_arg d])]
                   (s\<lparr>recycledDiskCacheDirs := Some ds\<rparr>))))
      else (Pending, add_tasks [AwaitLaunch i None] (emit [LaunchCalled i (launch_args s)] s)))"

text \<open>The promise of the instance rejects; the \<open>.catch\<close> of \<open>_launchInstance\<close> will run.\<close>

definition launch_rejected :: "instance_id \<Rightarrow> error \<Rightarrow> puppeteer_pool \<Rightarrow> puppeteer_pool" where
  "launch_rejected i e s =
     add_tasks [AwaitLaunchCatch i] (update_instance i (\<lambda>x. x\<lparr>browserPromise := Rejected e\<rparr>) s)"

text \<open>\<open>this.launchPuppeteerFunction\<close> resumes after \<open>mkdtempAsync\<close>.\<close>

definition launchPuppeteerFunction_mkdtemp ::
  "instance_id \<Rightarrow> error + path \<Rightarrow> puppeteer_pool \<Rightarrow> puppeteer_pool" where
  "launchPuppeteerFunction_mkdtemp i r s =
     (case r of
        Inl e \<Rightarrow> launch_rejected i e s
      | Inr d \<Rightarrow>
          add_tasks [AwaitLaunch i (Some d)]
            (emit [LaunchCalled i (launch_args s @ [disk_cache_arg d])] s))"

text \<open>
  The \<open>.then\<close> callback of \<open>_launchInstance\<close>. The two \<open>browser.on\<close> subscriptions have no
  effect on the state; from now on the events of this browser are delivered.
\<close>

definition launchInstance_then ::
  "instance_id \<Rightarrow> browser \<Rightarrow> child_process option \<Rightarrow> puppeteer_pool \<Rightarrow> puppeteer_pool" where
  "launchInstance_then i b proc s =
     update_instance i (\<lambda>x. x\<lparr>childProcess := proc, recycleDiskCacheDir := browserDir s b\<rparr>) s"

text \<open>
  \<open>this.launchPuppeteerFunction\<close> resumes after the user's launch function: it writes
  \<open>browser.recycleDiskCacheDir\<close> and returns the browser, which fulfils \<open>browserPromise\<close>;
  the \<open>.then\<close> callback of \<open>_launchInstance\<close> is the first reaction registered on that
  promise and runs before any other.
\<close>

definition launchPuppeteerFunction_launched ::
  "instance_id \<Rightarrow> path option \<Rightarrow> error + browser \<times> child_process option \<Rightarrow>
   puppeteer_pool \<Rightarrow> puppeteer_pool" where
  "launchPuppeteerFunction_launched i dir r s =
     (case r of
        Inl e \<Rightarrow> launch_rejected i e s
      | Inr (b, proc) \<Rightarrow>
          launchInstance_then i b proc
            (update_instance i (\<lambda>x. x\<lparr>browserPromise := Fulfilled b\<rparr>)
               (s\<lparr>browserDir := (browserDir s)(b := dir)\<rparr>)))"

text \<open>\<open>_launchInstance\<close>.\<close>

definition launchInstance :: "millis \<Rightarrow> puppeteer_pool \<Rightarrow> instance_id \<times> puppeteer_pool" where
  "launchInstance now s =
     (let i = browserCounter s;
          s1 = emit [LogDebug ''PuppeteerPool: launching new browser'']
                 (s\<lparr>browserCounter := i + 1\<rparr>);
          (bp, s2) = launchPuppeteerFunction i s1;
          s3 = s2\<lparr>instances := (instances s2)(i := new_PuppeteerInstance i bp now)\<rparr>;
          s4 = (case bp of Rejected e \<Rightarrow> add_tasks [AwaitLaunchCatch i] s3 | _ \<Rightarrow> s3)
      in (i, s4\<lparr>activeInstances := obj_set i (activeInstances s4)\<rparr>))"

section \<open>Retiring and killing\<close>

text \<open>\<open>_retireInstance\<close>.\<close>

definition retireInstance :: "instance_id \<Rightarrow> puppeteer_pool \<Rightarrow> puppeteer_pool" where
  "retireInstance i s =
     (if i \<notin> set (activeInstances s)
      then emit [LogDebug ''PuppeteerPool: browser is retired already''] s
      else (emit [LogDebug ''PuppeteerPool: retiring browser''] s)
             \<lparr>retiredInstances := obj_set i (retiredInstances s),
              activeInstances := obj_delete i (activeInstances s)\<rparr>)"

text \<open>The \<open>.catch\<close> callback of \<open>_launchInstance\<close>.\<close>

definition launchInstance_catch :: "instance_id \<Rightarrow> puppeteer_pool \<Rightarrow> puppeteer_pool" where
  "launchInstance_catch i s =
     retireInstance i (emit [LogException ''PuppeteerPool: browser launch failed''] s)"

text \<open>The handler of the browser's \<open>disconnected\<close> event.\<close>

definition on_disconnected :: "instance_id \<Rightarrow> puppeteer_pool \<Rightarrow> puppeteer_pool" where
  "on_disconnected i s =
     retireInstance i
       (if killed (instances s i) then s
        else emit [LogError ''PuppeteerPool: Puppeteer sent \"disconnect\" event. Maybe it crashed???''] s)"

text \<open>The handler of the browser's \<open>targetdestroyed\<close> event; the timer it sets calls
  \<open>_killInstance\<close> after \<open>PAGE_CLOSE_KILL_TIMEOUT_MILLIS\<close>.\<close>

definition on_targetdestroyed :: "instance_id \<Rightarrow> target_type \<Rightarrow> puppeteer_pool \<Rightarrow> puppeteer_pool" where
  "on_targetdestroyed i ty s =
     (if ty \<noteq> Page \<and> ty \<noteq> Other then s
      else let s1 = update_instance i (\<lambda>x. x\<lparr>activePages := activePages x - 1\<rparr>) s
           in if activePages (instances s1 i) = 0 \<and> i \<in> set (retiredInstances s1)
              then add_tasks [PageCloseKillTimer i] s1
              else s1)"

text \<open>\<open>_killInstance\<close>: the instance leaves \<open>retiredInstances\<close>, the hard-kill timer is set
  (its closure holds the value \<open>childProcess\<close> has now), and a reaction waits for the
  browser.\<close>

definition killInstance :: "instance_id \<Rightarrow> puppeteer_pool \<Rightarrow> puppeteer_pool" where
  "killInstance i s =
     add_tasks [ProcessKillTimer i (childProcess (instances s i)), AwaitBrowserForKill i]
       ((emit [LogDebug ''PuppeteerPool: killing browser''] s)
          \<lparr>retiredInstances := obj_delete i (retiredInstances s)\<rparr>)"

text \<open>The local function \<open>recycleDiskCache\<close> of \<open>_killInstance\<close>. \<open>add\<close> on a list that
  is \<open>null\<close> throws before the field of the instance is cleared.\<close>

definition killInstance_recycleDiskCache :: "instance_id \<Rightarrow> puppeteer_pool \<Rightarrow> puppeteer_pool" where
  "killInstance_recycleDiskCache i s =
     (if \<not> truthy_path (recycleDiskCacheDir (instances s i)) then s
      else case (recycledDiskCacheDirs s, recycleDiskCacheDir (instances s i)) of
             (Some q, Some d) \<Rightarrow>
               update_instance i (\<lambda>x. x\<lparr>recycleDiskCacheDir := None\<rparr>)
                 ((emit [LogDebug ''PuppeteerPool: recycling disk cache dir''] s)
                    \<lparr>recycledDiskCacheDirs := Some (q @ [d])\<rparr>)
           | _ \<Rightarrow> emit [LogDebug ''PuppeteerPool: recycling disk cache dir''] s)"

definition recycleDiskCache_throws :: "instance_id \<Rightarrow> puppeteer_pool \<Rightarrow> bool" where
  "recycleDiskCache_throws i s =
     (truthy_path (recycleDiskCacheDir (instances s i)) \<and> recycledDiskCacheDirs s = None)"

text \<open>The timer of \<open>_killInstance\<close> fires after \<open>PROCESS_KILL_TIMEOUT_MILLIS\<close>.\<close>

definition killInstance_timeout ::
  "instance_id \<Rightarrow> child_process option \<Rightarrow> puppeteer_pool \<Rightarrow> puppeteer_pool" where
  "killInstance_timeout i cp s =
     killInstance_recycleDiskCache i
       (case cp of None \<Rightarrow> s | Some p \<Rightarrow> emit [ProcessKill p SIGKILL] s)"

text \<open>The second \<open>.then\<close> and the \<open>.catch\<close> of \<open>_killInstance\<close>, once \<open>browser.close()\<close> has
  settled with \<open>r\<close> (or was not called).\<close>

definition killInstance_closed :: "instance_id \<Rightarrow> error + unit \<Rightarrow> puppeteer_pool \<Rightarrow> puppeteer_pool" where
  "killInstance_closed i r s =
     (case r of
        Inl e \<Rightarrow> emit [LogException ''PuppeteerPool: cannot close the browser instance''] s
      | Inr u \<Rightarrow>
          (if recycleDiskCache_throws i s
           then emit [LogException ''PuppeteerPool: cannot close the browser instance'']
                  (killInstance_recycleDiskCache i s)
           else killInstance_recycleDiskCache i s))"

text \<open>The first \<open>.then\<close> of \<open>_killInstance\<close>, once \<open>browserPromise\<close> has settled.\<close>

definition killInstance_browser :: "instance_id \<Rightarrow> puppeteer_pool \<Rightarrow> puppeteer_pool" where
  "killInstance_browser i s =
     (case browserPromise (instances s i) of
        Pending \<Rightarrow> s
      | Rejected e \<Rightarrow> emit [LogException ''PuppeteerPool: cannot close the browser instance''] s
      | Fulfilled b \<Rightarrow>
          if killed (instances s i) then killInstance_closed i (Inr ()) s
          else add_tasks [AwaitCloseForKill i]
                 (emit [CloseRequested b] (update_instance i (\<lambda>x. x\<lparr>killed := True\<rparr>) s)))"

text \<open>\<open>_killRetiredInstances\<close>: the body of the \<open>_.mapObject\<close> callback, and the loop.\<close>

definition killRetiredInstances_each :: "millis \<Rightarrow> puppeteer_pool \<Rightarrow> instance_id \<Rightarrow> puppeteer_pool" where
  "killRetiredInstances_each now s i =
     (if now - lastPageOpenedAt (instances s i) > killInstanceAfterMillis s
      then killInstance i
             (emit [LogDebug ''PuppeteerPool: killing retired browser after period of inactivity''] s)
      else add_tasks [AwaitBrowserForPages i] s)"

definition killRetiredInstances :: "millis \<Rightarrow> puppeteer_pool \<Rightarrow> puppeteer_pool" where
  "killRetiredInstances now s =
     foldl (killRetiredInstances_each now)
       (emit [LogDebug ''PuppeteerPool: retired browsers count''] s) (retiredInstances s)"

text \<open>The reactions of \<open>_killRetiredInstances\<close>: the first \<open>.then\<close> calls
  \<open>browser.pages()\<close> once \<open>browserPromise\<close> is fulfilled (a rejection goes to the error
  callback of the second); the second runs once \<open>browser.pages()\<close> has settled with the
  number of pages or an error.\<close>

definition killRetiredInstances_browser :: "instance_id \<Rightarrow> puppeteer_pool \<Rightarrow> puppeteer_pool" where
  "killRetiredInstances_browser i s =
     (case browserPromise (instances s i) of
        Pending \<Rightarrow> s
      | Rejected e \<Rightarrow> killInstance i (emit [LogException ''PuppeteerPool: browser.pages() failed''] s)
      | Fulfilled b \<Rightarrow> add_tasks [AwaitPages i] (emit [PagesRequested b] s))"

definition killRetiredInstances_pages ::
  "instance_id \<Rightarrow> error + nat \<Rightarrow> puppeteer_pool \<Rightarrow> puppeteer_pool" where
  "killRetiredInstances_pages i r s =
     (case r of
        Inl e \<Rightarrow> killInstance i (emit [LogException ''PuppeteerPool: browser.pages() failed''] s)
      | Inr n \<Rightarrow>
          if n \<le> 1
          then killInstance i
                 (emit [LogDebug ''PuppeteerPool: killing retired browser because it has no open tabs''] s)
          else s)"

text \<open>\<open>_killAllInstances\<close>, the SIGINT listener. \<open>kill\<close> on \<open>null\<close> throws into the empty
  \<open>catch\<close>.\<close>

definition killAllInstances_each :: "puppeteer_pool \<Rightarrow> instance_id \<Rightarrow> puppeteer_pool" where
  "killAllInstances_each s i =
     (case childProcess (instances s i) of
        None \<Rightarrow> s
      | Some p \<Rightarrow> emit [ProcessKill p SIGINT] s)"

definition killAllInstances :: "puppeteer_pool \<Rightarrow> puppeteer_pool" where
  "killAllInstances s = foldl killAllInstances_each s (activeInstances s @ retiredInstances s)"

section \<open>Allocating a page\<close>

text \<open>The scan of \<open>newPage\<close> over \<open>activeInstances\<close>: the last instance that is not
  skipped stays in the variable \<open>instance\<close>.\<close>

definition select_instance :: "puppeteer_pool \<Rightarrow> instance_id option" where
  "select_instance s =
     foldl (\<lambda>instance i.
              if activePages (instances s i) \<ge> maxOpenPagesPerInstance s then instance
              else Some i)
       None (activeInstances s)"

text \<open>\<open>newPage\<close> up to its first \<open>await\<close>; the result names the instance it uses.\<close>

definition newPage_sync :: "millis \<Rightarrow> puppeteer_pool \<Rightarrow> instance_id \<times> puppeteer_pool" where
  "newPage_sync now s =
     (let (i, s1) = (case select_instance s of
                       Some i \<Rightarrow> (i, s)
                     | None \<Rightarrow> launchInstance now s);
          s2 = update_instance i
                 (\<lambda>x. x\<lparr>lastPageOpenedAt := now,
                         totalPages := totalPages x + 1,
                         activePages := activePages x + 1\<rparr>) s1;
          s3 = (if totalPages (instances s2 i) \<ge> retireInstanceAfterRequestCount s2
                then retireInstance i s2 else s2)
      in (i, add_tasks [AwaitBrowserForPage i] s3))"

definition newPage :: "millis \<Rightarrow> puppeteer_pool \<Rightarrow> puppeteer_pool" where
  "newPage now s = snd (newPage_sync now s)"

text \<open>The \<open>catch\<close> block of \<open>newPage\<close>: the error is thrown again, so the promise that
  \<open>newPage\<close> returned rejects with it.\<close>

definition newPage_catch :: "instance_id \<Rightarrow> error \<Rightarrow> puppeteer_pool \<Rightarrow> puppeteer_pool" where
  "newPage_catch i e s =
     emit [NewPageReturned (Inl e)]
       (retireInstance i (emit [LogException ''PuppeteerPool: browser.newPage() failed''] s))"

text \<open>\<open>newPage\<close> resumes after \<open>await instance.browserPromise\<close>.\<close>

definition newPage_browser :: "instance_id \<Rightarrow> puppeteer_pool \<Rightarrow> puppeteer_pool" where
  "newPage_browser i s =
     (case browserPromise (instances s i) of
        Pending \<Rightarrow> s
      | Rejected e \<Rightarrow> newPage_catch i e s
      | Fulfilled b \<Rightarrow> add_tasks [AwaitPage i] (emit [PageRequested b] s))"

text \<open>\<open>newPage\<close> resumes after \<open>await browser.newPage()\<close>.\<close>

definition newPage_page :: "instance_id \<Rightarrow> error + page \<Rightarrow> puppeteer_pool \<Rightarrow> puppeteer_pool" where
  "newPage_page i r s =
     (case r of
        Inl e \<Rightarrow> newPage_catch i e s
      | Inr p \<Rightarrow> add_tasks [PageErrorHandler p i] (emit [PageOnceError p, NewPageReturned (Inr p)] s))"

text \<open>The handler of the page's \<open>error\<close> event, and the \<open>.catch\<close> behind \<open>page.close()\<close>.\<close>

definition on_page_error :: "page \<Rightarrow> instance_id \<Rightarrow> puppeteer_pool \<Rightarrow> puppeteer_pool" where
  "on_page_error p i s =
     add_tasks [AwaitPageClose p i]
       (emit [LogException ''PuppeteerPool: page crashed'', PageCloseRequested p] s)"

definition on_page_closed :: "error + unit \<Rightarrow> puppeteer_pool \<Rightarrow> puppeteer_pool" where
  "on_page_closed r s =
     (case r of
        Inl e \<Rightarrow> emit [LogDebug ''PuppeteerPool: Page.close() failed''] s
      | Inr u \<Rightarrow> s)"

section \<open>Manual retirement\<close>

text \<open>
  \<open>_findInstanceByBrowser\<close> on the instances \<open>ids\<close> that \<open>Object.values\<close> returned when it was
  called. \<open>Promise.filter\<close> rejects as soon as one of the promises rejects and is
  pending while none has rejected and one is pending (\<open>None\<close>); promises keep their
  value, so the outcome does not depend on when it is computed.
\<close>

fun first_rejected :: "puppeteer_pool \<Rightarrow> instance_id list \<Rightarrow> error option" where
  "first_rejected s [] = None"
| "first_rejected s (i # ids) =
     (case browserPromise (instances s i) of
        Rejected e \<Rightarrow> Some e
      | _ \<Rightarrow> first_rejected s ids)"

definition findInstanceByBrowser ::
  "browser \<Rightarrow> instance_id list \<Rightarrow> puppeteer_pool \<Rightarrow> (error + instance_id option) option" where
  "findInstanceByBrowser b ids s =
     (case first_rejected s ids of
        Some e \<Rightarrow> Some (Inl e)
      | None \<Rightarrow>
          if list_ex (\<lambda>i. browserPromise (instances s i) = Pending) ids then None
          else (case filter (\<lambda>i. browserPromise (instances s i) = Fulfilled b) ids of
                  [] \<Rightarrow> Some (Inr None)
                | [i] \<Rightarrow> Some (Inr (Some i))
                | _ \<Rightarrow> Some (Inl (Error ''PuppeteerPool: Multiple instances of PuppeteerPool found using a single browser instance.''))))"

text \<open>The \<open>.then\<close> callback of \<open>retire\<close>, with the value of the promise \<open>retire\<close> returns.\<close>

definition retire_then ::
  "error + instance_id option \<Rightarrow> puppeteer_pool \<Rightarrow> (error + unit) \<times> puppeteer_pool" where
  "retire_then found s =
     (case found of
        Inl e \<Rightarrow> (Inl e, s)
      | Inr None \<Rightarrow> (Inr (), emit [LogDebug ''PuppeteerPool: browser is retired already''] s)
      | Inr (Some i) \<Rightarrow> (Inr (), retireInstance i s))"

section \<open>Destroying the pool\<close>

text \<open>\<open>deleteDiskCacheDir\<close>: the call, the \<open>.catch\<close> once \<open>rimraf\<close> has settled with \<open>r\<close>, and
  the value of the promise it returns.\<close>

definition deleteDiskCacheDir :: "path \<Rightarrow> puppeteer_pool \<Rightarrow> puppeteer_pool" where
  "deleteDiskCacheDir d s =
     emit [LogDebug ''PuppeteerPool: Deleting disk cache directory'', DeleteDir d] s"

definition deleteDiskCacheDir_settled :: "error + unit \<Rightarrow> puppeteer_pool \<Rightarrow> puppeteer_pool" where
  "deleteDiskCacheDir_settled r s =
     (case r of
        Inl e \<Rightarrow> emit [LogWarning ''PuppeteerPool: Cannot delete Chrome disk cache directory''] s
      | Inr u \<Rightarrow> s)"

definition deleteDiskCacheDir_result :: "error + unit \<Rightarrow> error + unit" where
  "deleteDiskCacheDir_result r = promise_catch r (\<lambda>err. Inr ())"

text \<open>\<open>destroy\<close>, the synchronous part: timer and listener are removed, every instance of
  both maps is flagged, and one promise chain per instance is set up.\<close>

definition destroy_flag :: "puppeteer_pool \<Rightarrow> instance_id \<Rightarrow> puppeteer_pool" where
  "destroy_flag s i = update_instance i (\<lambda>x. x\<lparr>killed := True\<rparr>) s"

definition destroy :: "puppeteer_pool \<Rightarrow> puppeteer_pool" where
  "destroy s =
     (let ids = activeInstances s @ retiredInstances s;
          s1 = emit [ClearInterval, RemoveSigintListener]
                 (s\<lparr>instanceKillerInterval := False, sigintListener := False\<rparr>);
          s2 = foldl destroy_flag s1 ids
      in s2\<lparr>destroyJobs :=
               destroyJobs s2 @ [\<lparr>chains = map ChainAwaitBrowser ids, phase = AwaitingCloses\<rparr>]\<rparr>)"

definition get_job :: "nat \<Rightarrow> puppeteer_pool \<Rightarrow> destroy_job option" where
  "get_job j s = (if j < length (destroyJobs s) then Some (destroyJobs s ! j) else None)"

definition get_chain :: "nat \<Rightarrow> nat \<Rightarrow> puppeteer_pool \<Rightarrow> chain option" where
  "get_chain j k s =
     (case get_job j s of
        None \<Rightarrow> None
      | Some job \<Rightarrow> if k < length (chains job) then Some (chains job ! k) else None)"

definition set_chain :: "nat \<Rightarrow> nat \<Rightarrow> chain \<Rightarrow> puppeteer_pool \<Rightarrow> puppeteer_pool" where
  "set_chain j k c s =
     s\<lparr>destroyJobs :=
         (destroyJobs s)[j := (destroyJobs s ! j)\<lparr>chains := (chains (destroyJobs s ! j))[k := c]\<rparr>]\<rparr>"

definition set_phase :: "nat \<Rightarrow> destroy_phase \<Rightarrow> puppeteer_pool \<Rightarrow> puppeteer_pool" where
  "set_phase j ph s =
     s\<lparr>destroyJobs := (destroyJobs s)[j := (destroyJobs s ! j)\<lparr>phase := ph\<rparr>]\<rparr>"

text \<open>
  The two \<open>.then\<close> callbacks of one element of \<open>closePromises\<close>, once the browser promise
  of instance \<open>i\<close> has settled. The first calls \<open>browser.close()\<close> and returns the browser,
  not the promise of \<open>close\<close>; so the second follows at once and starts the deletion of
  the browser's cache directory. Nothing waits for the promise of \<open>close\<close>; the task
  \<open>CloseInFlight\<close> only records that the browser has not yet answered.
\<close>

definition destroy_close :: "browser \<Rightarrow> puppeteer_pool \<Rightarrow> puppeteer_pool" where
  "destroy_close b s = add_tasks [CloseInFlight b] (emit [CloseRequested b] s)"

definition destroy_closePromise ::
  "nat \<Rightarrow> nat \<Rightarrow> instance_id \<Rightarrow> puppeteer_pool \<Rightarrow> puppeteer_pool" where
  "destroy_closePromise j k i s =
     (case browserPromise (instances s i) of
        Pending \<Rightarrow> s
      | Rejected e \<Rightarrow> set_chain j k (ChainSettled (Inl e)) s
      | Fulfilled b \<Rightarrow>
          (case browserDir s b of
             None \<Rightarrow> set_chain j k (ChainSettled (Inr ())) (destroy_close b s)
           | Some d \<Rightarrow>
               if d = [] then set_chain j k (ChainSettled (Inr ())) (destroy_close b s)
               else set_chain j k (ChainAwaitDelete d)
                      (deleteDiskCacheDir d (destroy_close b s))))"

text \<open>The deletion started by a chain has settled.\<close>

definition destroy_closePromise_deleted ::
  "nat \<Rightarrow> nat \<Rightarrow> error + unit \<Rightarrow> puppeteer_pool \<Rightarrow> puppeteer_pool" where
  "destroy_closePromise_deleted j k r s =
     set_chain j k (ChainSettled (deleteDiskCacheDir_result r)) (deleteDiskCacheDir_settled r s)"

text \<open>\<open>Promise.all(closePromises)\<close>: rejected with the first rejection, fulfilled when
  every chain is.\<close>

fun chain_rejection :: "chain list \<Rightarrow> error option" where
  "chain_rejection [] = None"
| "chain_rejection (ChainSettled (Inl e) # cs) = Some e"
| "chain_rejection (c # cs) = chain_rejection cs"

definition chains_fulfilled :: "chain list \<Rightarrow> bool" where
  "chains_fulfilled cs = list_all (\<lambda>c. c = ChainSettled (Inr ())) cs"

text \<open>The \<open>while\<close> loop that empties \<open>recycledDiskCacheDirs\<close>.\<close>

fun destroy_drain :: "path list \<Rightarrow> puppeteer_pool \<Rightarrow> puppeteer_pool" where
  "destroy_drain [] s = s"
| "destroy_drain (d # ds) s =
     destroy_drain ds (deleteDiskCacheDir d (s\<lparr>recycledDiskCacheDirs := Some ds\<rparr>))"

text \<open>The reactions behind \<open>Promise.all(closePromises)\<close>: the \<open>.then\<close> callback when it is
  fulfilled, the \<open>.catch\<close> callback when it is rejected.\<close>

definition destroy_all :: "nat \<Rightarrow> chain list \<Rightarrow> puppeteer_pool \<Rightarrow> puppeteer_pool" where
  "destroy_all j cs s =
     (case chain_rejection cs of
        Some e \<Rightarrow>
          set_phase j Returned
            (emit [LogException ''PuppeteerPool: cannot close the browsers'',
                   DestroyReturned j (promise_catch (Inl e) (\<lambda>err. Inr ()))] s)
      | None \<Rightarrow>
          (case recycledDiskCacheDirs s of
             None \<Rightarrow> set_phase j (Draining 0 []) s
           | Some q \<Rightarrow> set_phase j (Draining (length q) []) (destroy_drain q s)))"

text \<open>One deletion of the loop has settled; and \<open>Promise.all(promises)\<close> once all have,
  which settles the promise that \<open>destroy\<close> returned.\<close>

definition destroy_drain_deleted ::
  "nat \<Rightarrow> nat \<Rightarrow> (error + unit) list \<Rightarrow> error + unit \<Rightarrow> puppeteer_pool \<Rightarrow> puppeteer_pool" where
  "destroy_drain_deleted j n rs r s =
     set_phase j (Draining (n - 1) (rs @ [deleteDiskCacheDir_result r]))
       (deleteDiskCacheDir_settled r s)"

definition destroy_returned :: "nat \<Rightarrow> (error + unit) list \<Rightarrow> puppeteer_pool \<Rightarrow> puppeteer_pool" where
  "destroy_returned j rs s =
     set_phase j Returned
       (emit [DestroyReturned j
                (promise_catch (promise_then (promise_all rs) (\<lambda>vs. Inr ())) (\<lambda>err. Inr ()))] s)"

section \<open>The pool as a transition system\<close>

text \<open>
  An event is one run-to-completion block, together with what the environment supplies
  to it (the clock, the value a promise of the environment settles with). The first
  five are calls from outside and timers of the process; the next two are events of a
  launched browser; the others resume a pending continuation.

  Scheduling. Any block that is enabled may run next. This admits every order the
  event loop can produce, and more: reactions on one promise are not forced to run in
  the order of their registration. Two reactions are merged into one block where
  nothing can run in between that tells the difference: the resumption of the launch
  function with the \<open>.then\<close> callback of \<open>_launchInstance\<close> (the first reaction on the
  promise it fulfils), and consecutive \<open>.then\<close> callbacks of one chain when the first
  returns a plain value.

  Environment. Launching, creating a directory, opening a page, listing pages, closing
  and deleting may each succeed or fail, as the event says. Calls that only register or
  report (\<open>browser.on\<close>, \<open>browser.process\<close>, \<open>target.type\<close>, the logger, the timer
  functions) are taken not to throw.
\<close>

datatype event =
    NewPage millis
  | Retire browser
  | Destroy
  | Sigint
  | ReaperTick millis
  | Disconnected instance_id
  | TargetDestroyed instance_id target_type
  | MkdtempSettled instance_id "error + path"
  | LaunchSettled instance_id "path option" "error + browser \<times> child_process option"
  | LaunchCatch instance_id
  | BrowserSettledForPage instance_id
  | PageSettled instance_id "error + page"
  | PageError page instance_id
  | PageCloseSettled page instance_id "error + unit"
  | PageCloseKillTimeout instance_id
  | BrowserSettledForPages instance_id
  | PagesSettled instance_id "error + nat"
  | ProcessKillTimeout instance_id "child_process option"
  | BrowserSettledForKill instance_id
  | CloseSettledForKill instance_id "error + unit"
  | FilterSettled browser "instance_id list"
  | CloseSettled browser "error + unit"
  | ClosePromiseBrowser nat nat
  | ClosePromiseDeleted nat nat "error + unit"
  | ClosePromisesAll nat
  | DrainDeleted nat "error + unit"
  | DrainAll nat

definition settled :: "instance_id \<Rightarrow> puppeteer_pool \<Rightarrow> bool" where
  "settled i s = (browserPromise (instances s i) \<noteq> Pending)"

definition launched :: "instance_id \<Rightarrow> puppeteer_pool \<Rightarrow> bool" where
  "launched i s =
     (i < browserCounter s \<and>
      (case browserPromise (instances s i) of Fulfilled b \<Rightarrow> True | _ \<Rightarrow> False))"

definition pending :: "task \<Rightarrow> puppeteer_pool \<Rightarrow> bool" where
  "pending t s = (t \<in> set (tasks s))"

text \<open>When a block can run.\<close>

fun enabled :: "event \<Rightarrow> puppeteer_pool \<Rightarrow> bool" where
  "enabled (NewPage now) s = True"
| "enabled (Retire b) s = True"
| "enabled Destroy s = True"
| "enabled Sigint s = sigintListener s"
| "enabled (ReaperTick now) s = instanceKillerInterval s"
| "enabled (Disconnected i) s = launched i s"
| "enabled (TargetDestroyed i ty) s = launched i s"
| "enabled (MkdtempSettled i r) s = pending (AwaitMkdtemp i) s"
| "enabled (LaunchSettled i dir r) s = pending (AwaitLaunch i dir) s"
| "enabled (LaunchCatch i) s = pending (AwaitLaunchCatch i) s"
| "enabled (BrowserSettledForPage i) s = (pending (AwaitBrowserForPage i) s \<and> settled i s)"
| "enabled (PageSettled i r) s = pending (AwaitPage i) s"
| "enabled (PageError p i) s = pending (PageErrorHandler p i) s"
| "enabled (PageCloseSettled p i r) s = pending (AwaitPageClose p i) s"
| "enabled (PageCloseKillTimeout i) s = pending (PageCloseKillTimer i) s"
| "enabled (BrowserSettledForPages i) s = (pending (AwaitBrowserForPages i) s \<and> settled i s)"
| "enabled (PagesSettled i r) s = pending (AwaitPages i) s"
| "enabled (ProcessKillTimeout i cp) s = pending (ProcessKillTimer i cp) s"
| "enabled (BrowserSettledForKill i) s = (pending (AwaitBrowserForKill i) s \<and> settled i s)"
| "enabled (CloseSettledForKill i r) s = pending (AwaitCloseForKill i) s"
| "enabled (FilterSettled b ids) s =
     (pending (AwaitFilter b ids) s \<and> findInstanceByBrowser b ids s \<noteq> None)"
| "enabled (CloseSettled b r) s = pending (CloseInFlight b) s"
| "enabled (ClosePromiseBrowser j k) s =
     (case get_chain j k s of
        Some (ChainAwaitBrowser i) \<Rightarrow> settled i s
      | _ \<Rightarrow> False)"
| "enabled (ClosePromiseDeleted j k r) s =
     (case get_chain j k s of
        Some (ChainAwaitDelete d) \<Rightarrow> True
      | _ \<Rightarrow> False)"
| "enabled (ClosePromisesAll j) s =
     (case get_job j s of
        None \<Rightarrow> False
      | Some job \<Rightarrow>
          phase job = AwaitingCloses \<and>
          (case chain_rejection (chains job) of
             Some e \<Rightarrow> True
           | None \<Rightarrow> chains_fulfilled (chains job)))"
| "enabled (DrainDeleted j r) s =
     (case get_job j s of
        None \<Rightarrow> False
      | Some job \<Rightarrow> (case phase job of Draining n rs \<Rightarrow> 0 < n | _ \<Rightarrow> False))"
| "enabled (DrainAll j) s =
     (case get_job j s of
        None \<Rightarrow> False
      | Some job \<Rightarrow> (case phase job of Draining n rs \<Rightarrow> n = 0 | _ \<Rightarrow> False))"

text \<open>What the block does.\<close>

fun fire :: "event \<Rightarrow> puppeteer_pool \<Rightarrow> puppeteer_pool" where
  "fire (NewPage now) s = newPage now s"
| "fire (Retire b) s = add_tasks [AwaitFilter b (activeInstances s)] s"
| "fire Destroy s = destroy s"
| "fire Sigint s = killAllInstances s"
| "fire (ReaperTick now) s = killRetiredInstances now s"
| "fire (Disconnected i) s = on_disconnected i s"
| "fire (TargetDestroyed i ty) s = on_targetdestroyed i ty s"
| "fire (MkdtempSettled i r) s =
     launchPuppeteerFunction_mkdtemp i r (remove_task (AwaitMkdtemp i) s)"
| "fire (LaunchSettled i dir r) s =
     launchPuppeteerFunction_launched i dir r (remove_task (AwaitLaunch i dir) s)"
| "fire (LaunchCatch i) s = launchInstance_catch i (remove_task (AwaitLaunchCatch i) s)"
| "fire (BrowserSettledForPage i) s = newPage_browser i (remove_task (AwaitBrowserForPage i) s)"
| "fire (PageSettled i r) s = newPage_page i r (remove_task (AwaitPage i) s)"
| "fire (PageError p i) s = on_page_error p i (remove_task (PageErrorHandler p i) s)"
| "fire (PageCloseSettled p i r) s = on_page_closed r (remove_task (AwaitPageClose p i) s)"
| "fire (PageCloseKillTimeout i) s =
     killInstance i
       (emit [LogDebug ''PuppeteerPool: killing retired browser because it has no active pages'']
          (remove_task (PageCloseKillTimer i) s))"
| "fire (BrowserSettledForPages i) s =
     killRetiredInstances_browser i (remove_task (AwaitBrowserForPages i) s)"
| "fire (PagesSettled i r) s = killRetiredInstances_pages i r (remove_task (AwaitPages i) s)"
| "fire (ProcessKillTimeout i cp) s = killInstance_timeout i cp (remove_task (ProcessKillTimer i cp) s)"
| "fire (BrowserSettledForKill i) s = killInstance_browser i (remove_task (AwaitBrowserForKill i) s)"
| "fire (CloseSettledForKill i r) s = killInstance_closed i r (remove_task (AwaitCloseForKill i) s)"
| "fire (FilterSettled b ids) s =
     (case findInstanceByBrowser b ids s of
        None \<Rightarrow> s
      | Some found \<Rightarrow>
          (let (r, s1) = retire_then found (remove_task (AwaitFilter b ids) s)
           in emit [RetireReturned r] s1))"
| "fire (CloseSettled b r) s = remove_task (CloseInFlight b) s"
| "fire (ClosePromiseBrowser j k) s =
     (case get_chain j k s of
        Some (ChainAwaitBrowser i) \<Rightarrow> destroy_closePromise j k i s
      | _ \<Rightarrow> s)"
| "fire (ClosePromiseDeleted j k r) s = destroy_closePromise_deleted j k r s"
| "fire (ClosePromisesAll j) s =
     (case get_job j s of
        None \<Rightarrow> s
      | Some job \<Rightarrow> destroy_all j (chains job) s)"
| "fire (DrainDeleted j r) s =
     (case get_job j s of
        None \<Rightarrow> s
      | Some job \<Rightarrow>
          (case phase job of
             Draining n rs \<Rightarrow> destroy_drain_deleted j n rs r s
           | _ \<Rightarrow> s))"
| "fire (DrainAll j) s =
     (case get_job j s of
        None \<Rightarrow> s
      | Some job \<Rightarrow>
          (case phase job of
             Draining n rs \<Rightarrow> destroy_returned j rs s
           | _ \<Rightarrow> s))"

definition step :: "event \<Rightarrow> puppeteer_pool \<Rightarrow> puppeteer_pool" where
  "step e s = (if enabled e s then fire e s else s)"

definition run :: "event list \<Rightarrow> puppeteer_pool \<Rightarrow> puppeteer_pool" where
  "run es s = foldl (\<lambda>s e. step e s) s es"

section \<open>Invariants\<close>

text \<open>The two maps never share an id, and every id in them has been handed out.\<close>

definition maps_inv :: "puppeteer_pool \<Rightarrow> bool" where
  "maps_inv s =
     (set (activeInstances s) \<inter> set (retiredInstances s) = {} \<and>
      (\<forall>i \<in> set (activeInstances s) \<union> set (retiredInstances s). i < browserCounter s))"


text \<open>Every active instance is below the lifetime cap.\<close>

definition cap_inv :: "puppeteer_pool \<Rightarrow> bool" where
  "cap_inv s =
     (\<forall>i \<in> set (activeInstances s).
        totalPages (instances s i) < retireInstanceAfterRequestCount s)"






text \<open>The promise of \<open>destroy\<close> never settles with an error. For the proof that it does
  settle: the work a call of \<open>destroy\<close> still has to do, and the condition that every
  browser promise it waits for has settled.\<close>

definition returns_ok :: "puppeteer_pool \<Rightarrow> bool" where
  "returns_ok s = (\<forall>j r. DestroyReturned j r \<in> set (effects s) \<longrightarrow> r = Inr ())"

definition chain_weight :: "chain \<Rightarrow> nat" where
  "chain_weight c = (case c of ChainAwaitBrowser i \<Rightarrow> 2 | ChainAwaitDelete d \<Rightarrow> 1 | ChainSettled r \<Rightarrow> 0)"

definition queue_length :: "puppeteer_pool \<Rightarrow> nat" where
  "queue_length s = (case recycledDiskCacheDirs s of None \<Rightarrow> 0 | Some q \<Rightarrow> length q)"

definition job_measure :: "destroy_job \<Rightarrow> puppeteer_pool \<Rightarrow> nat" where
  "job_measure job s =
     (case phase job of
        AwaitingCloses \<Rightarrow> sum_list (map chain_weight (chains job)) + queue_length s + 2
      | Draining n rs \<Rightarrow> n + 1
      | Returned \<Rightarrow> 0)"

definition chain_ready :: "puppeteer_pool \<Rightarrow> chain \<Rightarrow> bool" where
  "chain_ready s c = (case c of ChainAwaitBrowser i \<Rightarrow> settled i s | _ \<Rightarrow> True)"

definition browsers_settled :: "destroy_job \<Rightarrow> puppeteer_pool \<Rightarrow> bool" where
  "browsers_settled job s = list_all (chain_ready s) (chains job)"

definition next_chain :: "instance_id \<Rightarrow> puppeteer_pool \<Rightarrow> chain" where
  "next_chain i s =
     (case browserPromise (instances s i) of
        Pending \<Rightarrow> ChainAwaitBrowser i
      | Rejected e \<Rightarrow> ChainSettled (Inl e)
      | Fulfilled b \<Rightarrow>
          (case browserDir s b of
             None \<Rightarrow> ChainSettled (Inr ())
           | Some d \<Rightarrow> if d = [] then ChainSettled (Inr ()) else ChainAwaitDelete d))"



section \<open>Concrete configurations\<close>

text \<open>\<open>new PuppeteerPool()\<close> without options, and the configurations of the scenarios:
  two pages per browser; three pages in the life of a browser.\<close>

definition default_options :: pool_options where
  "default_options =
     \<lparr>opt_maxOpenPagesPerInstance = None, opt_retireInstanceAfterRequestCount = None,
      opt_abortInstanceAfterRequestCount = None, opt_instanceKillerIntervalMillis = None,
      opt_killInstanceAfterMillis = None, opt_launchPuppeteerOptions = None,
      opt_recycleDiskCache = None\<rparr>"


definition saturation_options :: pool_options where
  "saturation_options = default_options\<lparr>opt_maxOpenPagesPerInstance := Some 2\<rparr>"

definition lifetime_options :: pool_options where
  "lifetime_options =
     default_options\<lparr>opt_retireInstanceAfterRequestCount := Some 3,
                       opt_maxOpenPagesPerInstance := Some 10\<rparr>"

text \<open>Disk cache recycling with a browser that shows its window, and with a headless
  browser.\<close>

definition recycle_options :: pool_options where
  "recycle_options =
     default_options\<lparr>opt_recycleDiskCache := Some True,
                       opt_launchPuppeteerOptions :=
                         Some \<lparr>headless = Some False, devtools = None, args = None\<rparr>\<rparr>"


definition headless_recycle_options :: pool_options where
  "headless_recycle_options =
     default_options\<lparr>opt_recycleDiskCache := Some True,
                       opt_launchPuppeteerOptions :=
                         Some \<lparr>headless = Some True, devtools = None, args = None\<rparr>\<rparr>"

section \<open>Frame lemmas\<close>

text \<open>Which fields of the pool, and of the instances in the store, each block leaves
  alone.\<close>

lemma foldl_frame: "(\<And>s i. g (f s i) = g s) \<Longrightarrow> g (foldl f s xs) = g s"
  by (induction xs arbitrary: s) auto

lemma foldl_inv: "(\<And>s i. P s \<Longrightarrow> P (f s i)) \<Longrightarrow> P s \<Longrightarrow> P (foldl f s xs)"
  by (induction xs arbitrary: s) auto

lemma emit_frame [simp]:
  "maxOpenPagesPerInstance (emit es s) = maxOpenPagesPerInstance s"
  "retireInstanceAfterRequestCount (emit es s) = retireInstanceAfterRequestCount s"
  "killInstanceAfterMillis (emit es s) = killInstanceAfterMillis s"
  "instanceKillerIntervalMillis (emit es s) = instanceKillerIntervalMillis s"
  "recycleDiskCache (emit es s) = recycleDiskCache s"
  "launchPuppeteerOptions (emit es s) = launchPuppeteerOptions s"
  "recycledDiskCacheDirs (emit es s) = recycledDiskCacheDirs s"
  "browserCounter (emit es s) = browserCounter s"
  "activeInstances (emit es s) = activeInstances s"
  "retiredInstances (emit es s) = retiredInstances s"
  "instances (emit es s) = instances s"
  "browserDir (emit es s) = browserDir s"
  "instanceKillerInterval (emit es s) = instanceKillerInterval s"
  "sigintListener (emit es s) = sigintListener s"
  "tasks (emit es s) = tasks s"
  "destroyJobs (emit es s) = destroyJobs s"
  "effects (emit es s) = effects s @ es"
  by (simp_all add: emit_def)

lemma add_tasks_frame [simp]:
  "maxOpenPagesPerInstance (add_tasks ts s) = maxOpenPagesPerInstance s"
  "retireInstanceAfterRequestCount (add_tasks ts s) = retireInstanceAfterRequestCount s"
  "killInstanceAfterMillis (add_tasks ts s) = killInstanceAfterMillis s"
  "instanceKillerIntervalMillis (add_tasks ts s) = instanceKillerIntervalMillis s"
  "recycleDiskCache (add_tasks ts s) = recycleDiskCache s"
  "launchPuppeteerOptions (add_tasks ts s) = launchPuppeteerOptions s"
  "recycledDiskCacheDirs (add_tasks ts s) = recycledDiskCacheDirs s"
  "browserCounter (add_tasks ts s) = browserCounter s"
  "activeInstances (add_tasks ts s) = activeInstances s"
  "retiredInstances (add_tasks ts s) = retiredInstances s"
  "instances (add_tasks ts s) = instances s"
  "browserDir (add_tasks ts s) = browserDir s"
  "instanceKillerInterval (add_tasks ts s) = instanceKillerInterval s"
  "sigintListener (add_tasks ts s) = sigintListener s"
  "destroyJobs (add_tasks ts s) = destroyJobs s"
  "effects (add_tasks ts s) = effects s"
  "tasks (add_tasks ts s) = tasks s @ ts"
  by (simp_all add: add_tasks_def)

lemma remove_task_frame [simp]:
  "maxOpenPagesPerInstance (remove_task t s) = maxOpenPagesPerInstance s"
  "retireInstanceAfterRequestCount (remove_task t s) = retireInstanceAfterRequestCount s"
  "killInstanceAfterMillis (remove_task t s) = killInstanceAfterMillis s"
  "instanceKillerIntervalMillis (remove_task t s) = instanceKillerIntervalMillis s"
  "recycleDiskCache (remove_task t s) = recycleDiskCache s"
  "launchPuppeteerOptions (remove_task t s) = launchPuppeteerOptions s"
  "recycledDiskCacheDirs (remove_task t s) = recycledDiskCacheDirs s"
  "browserCounter (remove_task t s) = browserCounter s"
  "activeInstances (remove_task t s) = activeInstances s"
  "retiredInstances (remove_task t s) = retiredInstances s"
  "instances (remove_task t s) = instances s"
  "browserDir (remove_task t s) = browserDir s"
  "instanceKillerInterval (remove_task t s) = instanceKillerInterval s"
  "sigintListener (remove_task t s) = sigintListener s"
  "destroyJobs (remove_task t s) = destroyJobs s"
  "effects (remove_task t s) = effects s"
  "tasks (remove_task t s) = remove1 t (tasks s)"
  by (simp_all add: remove_task_def)

lemma update_instance_frame [simp]:
  "maxOpenPagesPerInstance (update_instance i f s) = maxOpenPagesPerInstance s"
  "retireInstanceAfterRequestCount (update_instance i f s) = retireInstanceAfterRequestCount s"
  "killInstanceAfterMillis (update_instance i f s) = killInstanceAfterMillis s"
  "instanceKillerIntervalMillis (update_instance i f s) = instanceKillerIntervalMillis s"
  "recycleDiskCache (update_instance i f s) = recycleDiskCache s"
  "launchPuppeteerOptions (update_instance i f s) = launchPuppeteerOptions s"
  "recycledDiskCacheDirs (update_instance i f s) = recycledDiskCacheDirs s"
  "browserCounter (update_instance i f s) = browserCounter s"
  "activeInstances (update_instance i f s) = activeInstances s"
  "retiredInstances (update_instance i f s) = retiredInstances s"
  "browserDir (update_instance i f s) = browserDir s"
  "instanceKillerInterval (update_instance i f s) = instanceKillerInterval s"
  "sigintListener (update_instance i f s) = sigintListener s"
  "tasks (update_instance i f s) = tasks s"
  "destroyJobs (update_instance i f s) = destroyJobs s"
  "effects (update_instance i f s) = effects s"
  "instances (update_instance i f s) = (instances s)(i := f (instances s i))"
  by (simp_all add: update_instance_def)

lemma set_chain_frame [simp]:
  "maxOpenPagesPerInstance (set_chain j k c s) = maxOpenPagesPerInstance s"
  "retireInstanceAfterRequestCount (set_chain j k c s) = retireInstanceAfterRequestCount s"
  "killInstanceAfterMillis (set_chain j k c s) = killInstanceAfterMillis s"
  "instanceKillerIntervalMillis (set_chain j k c s) = instanceKillerIntervalMillis s"
  "recycleDiskCache (set_chain j k c s) = recycleDiskCache s"
  "launchPuppeteerOptions (set_chain j k c s) = launchPuppeteerOptions s"
  "recycledDiskCacheDirs (set_chain j k c s) = recycledDiskCacheDirs s"
  "browserCounter (set_chain j k c s) = browserCounter s"
  "activeInstances (set_chain j k c s) = activeInstances s"
  "retiredInstances (set_chain j k c s) = retiredInstances s"
  "instances (set_chain j k c s) = instances s"
  "browserDir (set_chain j k c s) = browserDir s"
  "instanceKillerInterval (set_chain j k c s) = instanceKillerInterval s"
  "sigintListener (set_chain j k c s) = sigintListener s"
  "tasks (set_chain j k c s) = tasks s"
  "effects (set_chain j k c s) = effects s"
  by (simp_all add: set_chain_def)

lemma set_phase_frame [simp]:
  "maxOpenPagesPerInstance (set_phase j ph s) = maxOpenPagesPerInstance s"
  "retireInstanceAfterRequestCount (set_phase j ph s) = retireInstanceAfterRequestCount s"
  "killInstanceAfterMillis (set_phase j ph s) = killInstanceAfterMillis s"
  "instanceKillerIntervalMillis (set_phase j ph s) = instanceKillerIntervalMillis s"
  "recycleDiskCache (set_phase j ph s) = recycleDiskCache s"
  "launchPuppeteerOptions (set_phase j ph s) = launchPuppeteerOptions s"
  "recycledDiskCacheDirs (set_phase j ph s) = recycledDiskCacheDirs s"
  "browserCounter (set_phase j ph s) = browserCounter s"
  "activeInstances (set_phase j ph s) = activeInstances s"
  "retiredInstances (set_phase j ph s) = retiredInstances s"
  "instances (set_phase j ph s) = instances s"
  "browserDir (set_phase j ph s) = browserDir s"
  "instanceKillerInterval (set_phase j ph s) = instanceKillerInterval s"
  "sigintListener (set_phase j ph s) = sigintListener s"
  "tasks (set_phase j ph s) = tasks s"
  "effects (set_phase j ph s) = effects s"
  by (simp_all add: set_phase_def)

lemma launchPuppeteerFunction_frame [simp]:
  "maxOpenPagesPerInstance (snd (launchPuppeteerFunction i s)) = maxOpenPagesPerInstance s"
  "retireInstanceAfterRequestCount (snd (launchPuppeteerFunction i s)) = retireInstanceAfterRequestCount s"
  "killInstanceAfterMillis (snd (launchPuppeteerFunction i s)) = killInstanceAfterMillis s"
  "instanceKillerIntervalMillis (snd (launchPuppeteerFunction i s)) = instanceKillerIntervalMillis s"
  "recycleDiskCache (snd (launchPuppeteerFunction i s)) = recycleDiskCache s"
  "launchPuppeteerOptions (snd (launchPuppeteerFunction i s)) = launchPuppeteerOptions s"
  "browserCounter (snd (launchPuppeteerFunction i s)) = browserCounter s"
  "activeInstances (snd (launchPuppeteerFunction i s)) = activeInstances s"
  "retiredInstances (snd (launchPuppeteerFunction i s)) = retiredInstances s"
  "instances (snd (launchPuppeteerFunction i s)) = instances s"
  "browserDir (snd (launchPuppeteerFunction i s)) = browserDir s"
  "instanceKillerInterval (snd (launchPuppeteerFunction i s)) = instanceKillerInterval s"
  "sigintListener (snd (launchPuppeteerFunction i s)) = sigintListener s"
  "destroyJobs (snd (launchPuppeteerFunction i s)) = destroyJobs s"
  by (simp_all add: launchPuppeteerFunction_def Let_def split: option.splits list.splits promise.splits sum.splits prod.splits)

lemma launch_rejected_frame [simp]:
  "maxOpenPagesPerInstance (launch_rejected i e s) = maxOpenPagesPerInstance s"
  "retireInstanceAfterRequestCount (launch_rejected i e s) = retireInstanceAfterRequestCount s"
  "killInstanceAfterMillis (launch_rejected i e s) = killInstanceAfterMillis s"
  "instanceKillerIntervalMillis (launch_rejected i e s) = instanceKillerIntervalMillis s"
  "recycleDiskCache (launch_rejected i e s) = recycleDiskCache s"
  "launchPuppeteerOptions (launch_rejected i e s) = launchPuppeteerOptions s"
  "recycledDiskCacheDirs (launch_rejected i e s) = recycledDiskCacheDirs s"
  "browserCounter (launch_rejected i e s) = browserCounter s"
  "activeInstances (launch_rejected i e s) = activeInstances s"
  "retiredInstances (launch_rejected i e s) = retiredInstances s"
  "browserDir (launch_rejected i e s) = browserDir s"
  "instanceKillerInterval (launch_rejected i e s) = instanceKillerInterval s"
  "sigintListener (launch_rejected i e s) = sigintListener s"
  "destroyJobs (launch_rejected i e s) = destroyJobs s"
  "effects (launch_rejected i e s) = effects s"
  by (simp_all add: launch_rejected_def Let_def split: option.splits list.splits promise.splits sum.splits prod.splits)

lemma launchPuppeteerFunction_mkdtemp_frame [simp]:
  "maxOpenPagesPerInstance (launchPuppeteerFunction_mkdtemp i r s) = maxOpenPagesPerInstance s"
  "retireInstanceAfterRequestCount (launchPuppeteerFunction_mkdtemp i r s) = retireInstanceAfterRequestCount s"
  "killInstanceAfterMillis (launchPuppeteerFunction_mkdtemp i r s) = killInstanceAfterMillis s"
  "instanceKillerIntervalMillis (launchPuppeteerFunction_mkdtemp i r s) = instanceKillerIntervalMillis s"
  "recycleDiskCache (launchPuppeteerFunction_mkdtemp i r s) = recycleDiskCache s"
  "launchPuppeteerOptions (launchPuppeteerFunction_mkdtemp i r s) = launchPuppeteerOptions s"
  "recycledDiskCacheDirs (launchPuppeteerFunction_mkdtemp i r s) = recycledDiskCacheDirs s"
  "browserCounter (launchPuppeteerFunction_mkdtemp i r s) = browserCounter s"
  "activeInstances (launchPuppeteerFunction_mkdtemp i r s) = activeInstances s"
  "retiredInstances (launchPuppeteerFunction_mkdtemp i r s) = retiredInstances s"
  "browserDir (launchPuppeteerFunction_mkdtemp i r s) = browserDir s"
  "instanceKillerInterval (launchPuppeteerFunction_mkdtemp i r s) = instanceKillerInterval s"
  "sigintListener (launchPuppeteerFunction_mkdtemp i r s) = sigintListener s"
  "destroyJobs (launchPuppeteerFunction_mkdtemp i r s) = destroyJobs s"
  by (simp_all add: launchPuppeteerFunction_mkdtemp_def Let_def split: option.splits list.splits promise.splits sum.splits prod.splits)

lemma launchInstance_then_frame [simp]:
  "maxOpenPagesPerInstance (launchInstance_then i b proc s) = maxOpenPagesPerInstance s"
  "retireInstanceAfterRequestCount (launchInstance_then i b proc s) = retireInstanceAfterRequestCount s"
  "killInstanceAfterMillis (launchInstance_then i b proc s) = killInstanceAfterMillis s"
  "instanceKillerIntervalMillis (launchInstance_then i b proc s) = instanceKillerIntervalMillis s"
  "recycleDiskCache (launchInstance_then i b proc s) = recycleDiskCache s"
  "launchPuppeteerOptions (launchInstance_then i b proc s) = launchPuppeteerOptions s"
  "recycledDiskCacheDirs (launchInstance_then i b proc s) = recycledDiskCacheDirs s"
  "browserCounter (launchInstance_then i b proc s) = browserCounter s"
  "activeInstances (launchInstance_then i b proc s) = activeInstances s"
  "retiredInstances (launchInstance_then i b proc s) = retiredInstances s"
  "browserDir (launchInstance_then i b proc s) = browserDir s"
  "instanceKillerInterval (launchInstance_then i b proc s) = instanceKillerInterval s"
  "sigintListener (launchInstance_then i b proc s) = sigintListener s"
  "tasks (launchInstance_then i b proc s) = tasks s"
  "destroyJobs (launchInstance_then i b proc s) = destroyJobs s"
  "effects (launchInstance_then i b proc s) = effects s"
  by (simp_all add: launchInstance_then_def Let_def split: option.splits list.splits promise.splits sum.splits prod.splits)

lemma launchPuppeteerFunction_launched_frame [simp]:
  "maxOpenPagesPerInstance (launchPuppeteerFunction_launched i dir r s) = maxOpenPagesPerInstance s"
  "retireInstanceAfterRequestCount (launchPuppeteerFunction_launched i dir r s) = retireInstanceAfterRequestCount s"
  "killInstanceAfterMillis (launchPuppeteerFunction_launched i dir r s) = killInstanceAfterMillis s"
  "instanceKillerIntervalMillis (launchPuppeteerFunction_launched i dir r s) = instanceKillerIntervalMillis s"
  "recycleDiskCache (launchPuppeteerFunction_launched i dir r s) = recycleDiskCache s"
  "launchPuppeteerOptions (launchPuppeteerFunction_launched i dir r s) = launchPuppeteerOptions s"
  "recycledDiskCacheDirs (launchPuppeteerFunction_launched i dir r s) = recycledDiskCacheDirs s"
  "browserCounter (launchPuppeteerFunction_launched i dir r s) = browserCounter s"
  "activeInstances (launchPuppeteerFunction_launched i dir r s) = activeInstances s"
  "retiredInstances (launchPuppeteerFunction_launched i dir r s) = retiredInstances s"
  "instanceKillerInterval (launchPuppeteerFunction_launched i dir r s) = instanceKillerInterval s"
  "sigintListener (launchPuppeteerFunction_launched i dir r s) = sigintListener s"
  "destroyJobs (launchPuppeteerFunction_launched i dir r s) = destroyJobs s"
  "effects (launchPuppeteerFunction_launched i dir r s) = effects s"
  by (simp_all add: launchPuppeteerFunction_launched_def Let_def split: option.splits list.splits promise.splits sum.splits prod.splits)

lemma launchInstance_frame [simp]:
  "maxOpenPagesPerInstance (snd (launchInstance now s)) = maxOpenPagesPerInstance s"
  "retireInstanceAfterRequestCount (snd (launchInstance now s)) = retireInstanceAfterRequestCount s"
  "killInstanceAfterMillis (snd (launchInstance now s)) = killInstanceAfterMillis s"
  "instanceKillerIntervalMillis (snd (launchInstance now s)) = instanceKillerIntervalMillis s"
  "recycleDiskCache (snd (launchInstance now s)) = recycleDiskCache s"
  "launchPuppeteerOptions (snd (launchInstance now s)) = launchPuppeteerOptions s"
  "retiredInstances (snd (launchInstance now s)) = retiredInstances s"
  "browserDir (snd (launchInstance now s)) = browserDir s"
  "instanceKillerInterval (snd (launchInstance now s)) = instanceKillerInterval s"
  "sigintListener (snd (launchInstance now s)) = sigintListener s"
  "destroyJobs (snd (launchInstance now s)) = destroyJobs s"
  by (simp_all add: launchInstance_def split_beta Let_def split: option.splits list.splits promise.splits sum.splits prod.splits)

lemma retireInstance_frame [simp]:
  "maxOpenPagesPerInstance (retireInstance i s) = maxOpenPagesPerInstance s"
  "retireInstanceAfterRequestCount (retireInstance i s) = retireInstanceAfterRequestCount s"
  "killInstanceAfterMillis (retireInstance i s) = killInstanceAfterMillis s"
  "instanceKillerIntervalMillis (retireInstance i s) = instanceKillerIntervalMillis s"
  "recycleDiskCache (retireInstance i s) = recycleDiskCache s"
  "launchPuppeteerOptions (retireInstance i s) = launchPuppeteerOptions s"
  "recycledDiskCacheDirs (retireInstance i s) = recycledDiskCacheDirs s"
  "browserCounter (retireInstance i s) = browserCounter s"
  "instances (retireInstance i s) = instances s"
  "browserDir (retireInstance i s) = browserDir s"
  "instanceKillerInterval (retireInstance i s) = instanceKillerInterval s"
  "sigintListener (retireInstance i s) = sigintListener s"
  "tasks (retireInstance i s) = tasks s"
  "destroyJobs (retireInstance i s) = destroyJobs s"
  by (simp_all add: retireInstance_def Let_def split: option.splits list.splits promise.splits sum.splits prod.splits)

lemma launchInstance_catch_frame [simp]:
  "maxOpenPagesPerInstance (launchInstance_catch i s) = maxOpenPagesPerInstance s"
  "retireInstanceAfterRequestCount (launchInstance_catch i s) = retireInstanceAfterRequestCount s"
  "killInstanceAfterMillis (launchInstance_catch i s) = killInstanceAfterMillis s"
  "instanceKillerIntervalMillis (launchInstance_catch i s) = instanceKillerIntervalMillis s"
  "recycleDiskCache (launchInstance_catch i s) = recycleDiskCache s"
  "launchPuppeteerOptions (launchInstance_catch i s) = launchPuppeteerOptions s"
  "recycledDiskCacheDirs (launchInstance_catch i s) = recycledDiskCacheDirs s"
  "browserCounter (launchInstance_catch i s) = browserCounter s"
  "instances (launchInstance_catch i s) = instances s"
  "browserDir (launchInstance_catch i s) = browserDir s"
  "instanceKillerInterval (launchInstance_catch i s) = instanceKillerInterval s"
  "sigintListener (launchInstance_catch i s) = sigintListener s"
  "tasks (launchInstance_catch i s) = tasks s"
  "destroyJobs (launchInstance_catch i s) = destroyJobs s"
  by (simp_all add: launchInstance_catch_def Let_def split: option.splits list.splits promise.splits sum.splits prod.splits)

lemma on_disconnected_frame [simp]:
  "maxOpenPagesPerInstance (on_disconnected i s) = maxOpenPagesPerInstance s"
  "retireInstanceAfterRequestCount (on_disconnected i s) = retireInstanceAfterRequestCount s"
  "killInstanceAfterMillis (on_disconnected i s) = killInstanceAfterMillis s"
  "instanceKillerIntervalMillis (on_disconnected i s) = instanceKillerIntervalMillis s"
  "recycleDiskCache (on_disconnected i s) = recycleDiskCache s"
  "launchPuppeteerOptions (on_disconnected i s) = launchPuppeteerOptions s"
  "recycledDiskCacheDirs (on_disconnected i s) = recycledDiskCacheDirs s"
  "browserCounter (on_disconnected i s) = browserCounter s"
  "instances (on_disconnected i s) = instances s"
  "browserDir (on_disconnected i s) = browserDir s"
  "instanceKillerInterval (on_disconnected i s) = instanceKillerInterval s"
  "sigintListener (on_disconnected i s) = sigintListener s"
  "tasks (on_disconnected i s) = tasks s"
  "destroyJobs (on_disconnected i s) = destroyJobs s"
  by (simp_all add: on_disconnected_def Let_def split: option.splits list.splits promise.splits sum.splits prod.splits)

lemma on_targetdestroyed_frame [simp]:
  "maxOpenPagesPerInstance (on_targetdestroyed i ty s) = maxOpenPagesPerInstance s"
  "retireInstanceAfterRequestCount (on_targetdestroyed i ty s) = retireInstanceAfterRequestCount s"
  "killInstanceAfterMillis (on_targetdestroyed i ty s) = killInstanceAfterMillis s"
  "instanceKillerIntervalMillis (on_targetdestroyed i ty s) = instanceKillerIntervalMillis s"
  "recycleDiskCache (on_targetdestroyed i ty s) = recycleDiskCache s"
  "launchPuppeteerOptions (on_targetdestroyed i ty s) = launchPuppeteerOptions s"
  "recycledDiskCacheDirs (on_targetdestroyed i ty s) = recycledDiskCacheDirs s"
  "browserCounter (on_targetdestroyed i ty s) = browserCounter s"
  "activeInstances (on_targetdestroyed i ty s) = activeInstances s"
  "retiredInstances (on_targetdestroyed i ty s) = retiredInstances s"
  "browserDir (on_targetdestroyed i ty s) = browserDir s"
  "instanceKillerInterval (on_targetdestroyed i ty s) = instanceKillerInterval s"
  "sigintListener (on_targetdestroyed i ty s) = sigintListener s"
  "destroyJobs (on_targetdestroyed i ty s) = destroyJobs s"
  "effects (on_targetdestroyed i ty s) = effects s"
  by (simp_all add: on_targetdestroyed_def Let_def split: option.splits list.splits promise.splits sum.splits prod.splits)

lemma killInstance_frame [simp]:
  "maxOpenPagesPerInstance (killInstance i s) = maxOpenPagesPerInstance s"
  "retireInstanceAfterRequestCount (killInstance i s) = retireInstanceAfterRequestCount s"
  "killInstanceAfterMillis (killInstance i s) = killInstanceAfterMillis s"
  "instanceKillerIntervalMillis (killInstance i s) = instanceKillerIntervalMillis s"
  "recycleDiskCache (killInstance i s) = recycleDiskCache s"
  "launchPuppeteerOptions (killInstance i s) = launchPuppeteerOptions s"
  "recycledDiskCacheDirs (killInstance i s) = recycledDiskCacheDirs s"
  "browserCounter (killInstance i s) = browserCounter s"
  "activeInstances (killInstance i s) = activeInstances s"
  "instances (killInstance i s) = instances s"
  "browserDir (killInstance i s) = browserDir s"
  "instanceKillerInterval (killInstance i s) = instanceKillerInterval s"
  "sigintListener (killInstance i s) = sigintListener s"
  "destroyJobs (killInstance i s) = destroyJobs s"
  by (simp_all add: killInstance_def Let_def split: option.splits list.splits promise.splits sum.splits prod.splits)

lemma killInstance_recycleDiskCache_frame [simp]:
  "maxOpenPagesPerInstance (killInstance_recycleDiskCache i s) = maxOpenPagesPerInstance s"
  "retireInstanceAfterRequestCount (killInstance_recycleDiskCache i s) = retireInstanceAfterRequestCount s"
  "killInstanceAfterMillis (killInstance_recycleDiskCache i s) = killInstanceAfterMillis s"
  "instanceKillerIntervalMillis (killInstance_recycleDiskCache i s) = instanceKillerIntervalMillis s"
  "recycleDiskCache (killInstance_recycleDiskCache i s) = recycleDiskCache s"
  "launchPuppeteerOptions (killInstance_recycleDiskCache i s) = launchPuppeteerOptions s"
  "browserCounter (killInstance_recycleDiskCache i s) = browserCounter s"
  "activeInstances (killInstance_recycleDiskCache i s) = activeInstances s"
  "retiredInstances (killInstance_recycleDiskCache i s) = retiredInstances s"
  "browserDir (killInstance_recycleDiskCache i s) = browserDir s"
  "instanceKillerInterval (killInstance_recycleDiskCache i s) = instanceKillerInterval s"
  "sigintListener (killInstance_recycleDiskCache i s) = sigintListener s"
  "tasks (killInstance_recycleDiskCache i s) = tasks s"
  "destroyJobs (killInstance_recycleDiskCache i s) = destroyJobs s"
  by (simp_all add: killInstance_recycleDiskCache_def Let_def split: option.splits list.splits promise.splits sum.splits prod.splits)

lemma killInstance_timeout_frame [simp]:
  "maxOpenPagesPerInstance (killInstance_timeout i cp s) = maxOpenPagesPerInstance s"
  "retireInstanceAfterRequestCount (killInstance_timeout i cp s) = retireInstanceAfterRequestCount s"
  "killInstanceAfterMillis (killInstance_timeout i cp s) = killInstanceAfterMillis s"
  "instanceKillerIntervalMillis (killInstance_timeout i cp s) = instanceKillerIntervalMillis s"
  "recycleDiskCache (killInstance_timeout i cp s) = recycleDiskCache s"
  "launchPuppeteerOptions (killInstance_timeout i cp s) = launchPuppeteerOptions s"
  "browserCounter (killInstance_timeout i cp s) = browserCounter s"
  "activeInstances (killInstance_timeout i cp s) = activeInstances s"
  "retiredInstances (killInstance_timeout i cp s) = retiredInstances s"
  "browserDir (killInstance_timeout i cp s) = browserDir s"
  "instanceKillerInterval (killInstance_timeout i cp s) = instanceKillerInterval s"
  "sigintListener (killInstance_timeout i cp s) = sigintListener s"
  "tasks (killInstance_timeout i cp s) = tasks s"
  "destroyJobs (killInstance_timeout i cp s) = destroyJobs s"
  by (simp_all add: killInstance_timeout_def Let_def split: option.splits list.splits promise.splits sum.splits prod.splits)

lemma killInstance_closed_frame [simp]:
  "maxOpenPagesPerInstance (killInstance_closed i r s) = maxOpenPagesPerInstance s"
  "retireInstanceAfterRequestCount (killInstance_closed i r s) = retireInstanceAfterRequestCount s"
  "killInstanceAfterMillis (killInstance_closed i r s) = killInstanceAfterMillis s"
  "instanceKillerIntervalMillis (killInstance_closed i r s) = instanceKillerIntervalMillis s"
  "recycleDiskCache (killInstance_closed i r s) = recycleDiskCache s"
  "launchPuppeteerOptions (killInstance_closed i r s) = launchPuppeteerOptions s"
  "browserCounter (killInstance_closed i r s) = browserCounter s"
  "activeInstances (killInstance_closed i r s) = activeInstances s"
  "retiredInstances (killInstance_closed i r s) = retiredInstances s"
  "browserDir (killInstance_closed i r s) = browserDir s"
  "instanceKillerInterval (killInstance_closed i r s) = instanceKillerInterval s"
  "sigintListener (killInstance_closed i r s) = sigintListener s"
  "tasks (killInstance_closed i r s) = tasks s"
  "destroyJobs (killInstance_closed i r s) = destroyJobs s"
  by (simp_all add: killInstance_closed_def Let_def split: option.splits list.splits promise.splits sum.splits prod.splits)

lemma killInstance_browser_frame [simp]:
  "maxOpenPagesPerInstance (killInstance_browser i s) = maxOpenPagesPerInstance s"
  "retireInstanceAfterRequestCount (killInstance_browser i s) = retireInstanceAfterRequestCount s"
  "killInstanceAfterMillis (killInstance_browser i s) = killInstanceAfterMillis s"
  "instanceKillerIntervalMillis (killInstance_browser i s) = instanceKillerIntervalMillis s"
  "recycleDiskCache (killInstance_browser i s) = recycleDiskCache s"
  "launchPuppeteerOptions (killInstance_browser i s) = launchPuppeteerOptions s"
  "browserCounter (killInstance_browser i s) = browserCounter s"
  "activeInstances (killInstance_browser i s) = activeInstances s"
  "retiredInstances (killInstance_browser i s) = retiredInstances s"
  "browserDir (killInstance_browser i s) = browserDir s"
  "instanceKillerInterval (killInstance_browser i s) = instanceKillerInterval s"
  "sigintListener (killInstance_browser i s) = sigintListener s"
  "destroyJobs (killInstance_browser i s) = destroyJobs s"
  by (simp_all add: killInstance_browser_def Let_def split: option.splits list.splits promise.splits sum.splits prod.splits)

lemma killRetiredInstances_each_frame [simp]:
  "maxOpenPagesPerInstance (killRetiredInstances_each now s i) = maxOpenPagesPerInstance s"
  "retireInstanceAfterRequestCount (killRetiredInstances_each now s i) = retireInstanceAfterRequestCount s"
  "killInstanceAfterMillis (killRetiredInstances_each now s i) = killInstanceAfterMillis s"
  "instanceKillerIntervalMillis (killRetiredInstances_each now s i) = instanceKillerIntervalMillis s"
  "recycleDiskCache (killRetiredInstances_each now s i) = recycleDiskCache s"
  "launchPuppeteerOptions (killRetiredInstances_each now s i) = launchPuppeteerOptions s"
  "recycledDiskCacheDirs (killRetiredInstances_each now s i) = recycledDiskCacheDirs s"
  "browserCounter (killRetiredInstances_each now s i) = browserCounter s"
  "activeInstances (killRetiredInstances_each now s i) = activeInstances s"
  "instances (killRetiredInstances_each now s i) = instances s"
  "browserDir (killRetiredInstances_each now s i) = browserDir s"
  "instanceKillerInterval (killRetiredInstances_each now s i) = instanceKillerInterval s"
  "sigintListener (killRetiredInstances_each now s i) = sigintListener s"
  "destroyJobs (killRetiredInstances_each now s i) = destroyJobs s"
  by (simp_all add: killRetiredInstances_each_def Let_def split: option.splits list.splits promise.splits sum.splits prod.splits)

lemma killRetiredInstances_frame [simp]:
  "maxOpenPagesPerInstance (killRetiredInstances now s) = maxOpenPagesPerInstance s"
  "retireInstanceAfterRequestCount (killRetiredInstances now s) = retireInstanceAfterRequestCount s"
  "killInstanceAfterMillis (killRetiredInstances now s) = killInstanceAfterMillis s"
  "instanceKillerIntervalMillis (killRetiredInstances now s) = instanceKillerIntervalMillis s"
  "recycleDiskCache (killRetiredInstances now s) = recycleDiskCache s"
  "launchPuppeteerOptions (killRetiredInstances now s) = launchPuppeteerOptions s"
  "recycledDiskCacheDirs (killRetiredInstances now s) = recycledDiskCacheDirs s"
  "browserCounter (killRetiredInstances now s) = browserCounter s"
  "activeInstances (killRetiredInstances now s) = activeInstances s"
  "instances (killRetiredInstances now s) = instances s"
  "browserDir (killRetiredInstances now s) = browserDir s"
  "instanceKillerInterval (killRetiredInstances now s) = instanceKillerInterval s"
  "sigintListener (killRetiredInstances now s) = sigintListener s"
  "destroyJobs (killRetiredInstances now s) = destroyJobs s"
  by (simp_all add: killRetiredInstances_def foldl_frame)

lemma killRetiredInstances_browser_frame [simp]:
  "maxOpenPagesPerInstance (killRetiredInstances_browser i s) = maxOpenPagesPerInstance s"
  "retireInstanceAfterRequestCount (killRetiredInstances_browser i s) = retireInstanceAfterRequestCount s"
  "killInstanceAfterMillis (killRetiredInstances_browser i s) = killInstanceAfterMillis s"
  "instanceKillerIntervalMillis (killRetiredInstances_browser i s) = instanceKillerIntervalMillis s"
  "recycleDiskCache (killRetiredInstances_browser i s) = recycleDiskCache s"
  "launchPuppeteerOptions (killRetiredInstances_browser i s) = launchPuppeteerOptions s"
  "recycledDiskCacheDirs (killRetiredInstances_browser i s) = recycledDiskCacheDirs s"
  "browserCounter (killRetiredInstances_browser i s) = browserCounter s"
  "activeInstances (killRetiredInstances_browser i s) = activeInstances s"
  "instances (killRetiredInstances_browser i s) = instances s"
  "browserDir (killRetiredInstances_browser i s) = browserDir s"
  "instanceKillerInterval (killRetiredInstances_browser i s) = instanceKillerInterval s"
  "sigintListener (killRetiredInstances_browser i s) = sigintListener s"
  "destroyJobs (killRetiredInstances_browser i s) = destroyJobs s"
  by (simp_all add: killRetiredInstances_browser_def Let_def split: option.splits list.splits promise.splits sum.splits prod.splits)

lemma killRetiredInstances_pages_frame [simp]:
  "maxOpenPagesPerInstance (killRetiredInstances_pages i r s) = maxOpenPagesPerInstance s"
  "retireInstanceAfterRequestCount (killRetiredInstances_pages i r s) = retireInstanceAfterRequestCount s"
  "killInstanceAfterMillis (killRetiredInstances_pages i r s) = killInstanceAfterMillis s"
  "instanceKillerIntervalMillis (killRetiredInstances_pages i r s) = instanceKillerIntervalMillis s"
  "recycleDiskCache (killRetiredInstances_pages i r s) = recycleDiskCache s"
  "launchPuppeteerOptions (killRetiredInstances_pages i r s) = launchPuppeteerOptions s"
  "recycledDiskCacheDirs (killRetiredInstances_pages i r s) = recycledDiskCacheDirs s"
  "browserCounter (killRetiredInstances_pages i r s) = browserCounter s"
  "activeInstances (killRetiredInstances_pages i r s) = activeInstances s"
  "instances (killRetiredInstances_pages i r s) = instances s"
  "browserDir (killRetiredInstances_pages i r s) = browserDir s"
  "instanceKillerInterval (killRetiredInstances_pages i r s) = instanceKillerInterval s"
  "sigintListener (killRetiredInstances_pages i r s) = sigintListener s"
  "destroyJobs (killRetiredInstances_pages i r s) = destroyJobs s"
  by (simp_all add: killRetiredInstances_pages_def Let_def split: option.splits list.splits promise.splits sum.splits prod.splits)

lemma killAllInstances_each_frame [simp]:
  "maxOpenPagesPerInstance (killAllInstances_each s i) = maxOpenPagesPerInstance s"
  "retireInstanceAfterRequestCount (killAllInstances_each s i) = retireInstanceAfterRequestCount s"
  "killInstanceAfterMillis (killAllInstances_each s i) = killInstanceAfterMillis s"
  "instanceKillerIntervalMillis (killAllInstances_each s i) = instanceKillerIntervalMillis s"
  "recycleDiskCache (killAllInstances_each s i) = recycleDiskCache s"
  "launchPuppeteerOptions (killAllInstances_each s i) = launchPuppeteerOptions s"
  "recycledDiskCacheDirs (killAllInstances_each s i) = recycledDiskCacheDirs s"
  "browserCounter (killAllInstances_each s i) = browserCounter s"
  "activeInstances (killAllInstances_each s i) = activeInstances s"
  "retiredInstances (killAllInstances_each s i) = retiredInstances s"
  "instances (killAllInstances_each s i) = instances s"
  "browserDir (killAllInstances_each s i) = browserDir s"
  "instanceKillerInterval (killAllInstances_each s i) = instanceKillerInterval s"
  "sigintListener (killAllInstances_each s i) = sigintListener s"
  "tasks (killAllInstances_each s i) = tasks s"
  "destroyJobs (killAllInstances_each s i) = destroyJobs s"
  by (simp_all add: killAllInstances_each_def Let_def split: option.splits list.splits promise.splits sum.splits prod.splits)

lemma killAllInstances_frame [simp]:
  "maxOpenPagesPerInstance (killAllInstances s) = maxOpenPagesPerInstance s"
  "retireInstanceAfterRequestCount (killAllInstances s) = retireInstanceAfterRequestCount s"
  "killInstanceAfterMillis (killAllInstances s) = killInstanceAfterMillis s"
  "instanceKillerIntervalMillis (killAllInstances s) = instanceKillerIntervalMillis s"
  "recycleDiskCache (killAllInstances s) = recycleDiskCache s"
  "launchPuppeteerOptions (killAllInstances s) = launchPuppeteerOptions s"
  "recycledDiskCacheDirs (killAllInstances s) = recycledDiskCacheDirs s"
  "browserCounter (killAllInstances s) = browserCounter s"
  "activeInstances (killAllInstances s) = activeInstances s"
  "retiredInstances (killAllInstances s) = retiredInstances s"
  "instances (killAllInstances s) = instances s"
  "browserDir (killAllInstances s) = browserDir s"
  "instanceKillerInterval (killAllInstances s) = instanceKillerInterval s"
  "sigintListener (killAllInstances s) = sigintListener s"
  "tasks (killAllInstances s) = tasks s"
  "destroyJobs (killAllInstances s) = destroyJobs s"
  by (simp_all add: killAllInstances_def foldl_frame)

lemma newPage_sync_frame [simp]:
  "maxOpenPagesPerInstance (snd (newPage_sync now s)) = maxOpenPagesPerInstance s"
  "retireInstanceAfterRequestCount (snd (newPage_sync now s)) = retireInstanceAfterRequestCount s"
  "killInstanceAfterMillis (snd (newPage_sync now s)) = killInstanceAfterMillis s"
  "instanceKillerIntervalMillis (snd (newPage_sync now s)) = instanceKillerIntervalMillis s"
  "recycleDiskCache (snd (newPage_sync now s)) = recycleDiskCache s"
  "launchPuppeteerOptions (snd (newPage_sync now s)) = launchPuppeteerOptions s"
  "browserDir (snd (newPage_sync now s)) = browserDir s"
  "instanceKillerInterval (snd (newPage_sync now s)) = instanceKillerInterval s"
  "sigintListener (snd (newPage_sync now s)) = sigintListener s"
  "destroyJobs (snd (newPage_sync now s)) = destroyJobs s"
  by (simp_all add: newPage_sync_def split_beta Let_def split: option.splits list.splits promise.splits sum.splits prod.splits)

lemma newPage_frame [simp]:
  "maxOpenPagesPerInstance (newPage now s) = maxOpenPagesPerInstance s"
  "retireInstanceAfterRequestCount (newPage now s) = retireInstanceAfterRequestCount s"
  "killInstanceAfterMillis (newPage now s) = killInstanceAfterMillis s"
  "instanceKillerIntervalMillis (newPage now s) = instanceKillerIntervalMillis s"
  "recycleDiskCache (newPage now s) = recycleDiskCache s"
  "launchPuppeteerOptions (newPage now s) = launchPuppeteerOptions s"
  "browserDir (newPage now s) = browserDir s"
  "instanceKillerInterval (newPage now s) = instanceKillerInterval s"
  "sigintListener (newPage now s) = sigintListener s"
  "destroyJobs (newPage now s) = destroyJobs s"
  by (simp_all add: newPage_def Let_def split: option.splits list.splits promise.splits sum.splits prod.splits)

lemma newPage_catch_frame [simp]:
  "maxOpenPagesPerInstance (newPage_catch i e s) = maxOpenPagesPerInstance s"
  "retireInstanceAfterRequestCount (newPage_catch i e s) = retireInstanceAfterRequestCount s"
  "killInstanceAfterMillis (newPage_catch i e s) = killInstanceAfterMillis s"
  "instanceKillerIntervalMillis (newPage_catch i e s) = instanceKillerIntervalMillis s"
  "recycleDiskCache (newPage_catch i e s) = recycleDiskCache s"
  "launchPuppeteerOptions (newPage_catch i e s) = launchPuppeteerOptions s"
  "recycledDiskCacheDirs (newPage_catch i e s) = recycledDiskCacheDirs s"
  "browserCounter (newPage_catch i e s) = browserCounter s"
  "instances (newPage_catch i e s) = instances s"
  "browserDir (newPage_catch i e s) = browserDir s"
  "instanceKillerInterval (newPage_catch i e s) = instanceKillerInterval s"
  "sigintListener (newPage_catch i e s) = sigintListener s"
  "tasks (newPage_catch i e s) = tasks s"
  "destroyJobs (newPage_catch i e s) = destroyJobs s"
  by (simp_all add: newPage_catch_def Let_def split: option.splits list.splits promise.splits sum.splits prod.splits)

lemma newPage_browser_frame [simp]:
  "maxOpenPagesPerInstance (newPage_browser i s) = maxOpenPagesPerInstance s"
  "retireInstanceAfterRequestCount (newPage_browser i s) = retireInstanceAfterRequestCount s"
  "killInstanceAfterMillis (newPage_browser i s) = killInstanceAfterMillis s"
  "instanceKillerIntervalMillis (newPage_browser i s) = instanceKillerIntervalMillis s"
  "recycleDiskCache (newPage_browser i s) = recycleDiskCache s"
  "launchPuppeteerOptions (newPage_browser i s) = launchPuppeteerOptions s"
  "recycledDiskCacheDirs (newPage_browser i s) = recycledDiskCacheDirs s"
  "browserCounter (newPage_browser i s) = browserCounter s"
  "instances (newPage_browser i s) = instances s"
  "browserDir (newPage_browser i s) = browserDir s"
  "instanceKillerInterval (newPage_browser i s) = instanceKillerInterval s"
  "sigintListener (newPage_browser i s) = sigintListener s"
  "destroyJobs (newPage_browser i s) = destroyJobs s"
  by (simp_all add: newPage_browser_def Let_def split: option.splits list.splits promise.splits sum.splits prod.splits)

lemma newPage_page_frame [simp]:
  "maxOpenPagesPerInstance (newPage_page i r s) = maxOpenPagesPerInstance s"
  "retireInstanceAfterRequestCount (newPage_page i r s) = retireInstanceAfterRequestCount s"
  "killInstanceAfterMillis (newPage_page i r s) = killInstanceAfterMillis s"
  "instanceKillerIntervalMillis (newPage_page i r s) = instanceKillerIntervalMillis s"
  "recycleDiskCache (newPage_page i r s) = recycleDiskCache s"
  "launchPuppeteerOptions (newPage_page i r s) = launchPuppeteerOptions s"
  "recycledDiskCacheDirs (newPage_page i r s) = recycledDiskCacheDirs s"
  "browserCounter (newPage_page i r s) = browserCounter s"
  "instances (newPage_page i r s) = instances s"
  "browserDir (newPage_page i r s) = browserDir s"
  "instanceKillerInterval (newPage_page i r s) = instanceKillerInterval s"
  "sigintListener (newPage_page i r s) = sigintListener s"
  "destroyJobs (newPage_page i r s) = destroyJobs s"
  by (simp_all add: newPage_page_def Let_def split: option.splits list.splits promise.splits sum.splits prod.splits)

lemma on_page_error_frame [simp]:
  "maxOpenPagesPerInstance (on_page_error p i s) = maxOpenPagesPerInstance s"
  "retireInstanceAfterRequestCount (on_page_error p i s) = retireInstanceAfterRequestCount s"
  "killInstanceAfterMillis (on_page_error p i s) = killInstanceAfterMillis s"
  "instanceKillerIntervalMillis (on_page_error p i s) = instanceKillerIntervalMillis s"
  "recycleDiskCache (on_page_error p i s) = recycleDiskCache s"
  "launchPuppeteerOptions (on_page_error p i s) = launchPuppeteerOptions s"
  "recycledDiskCacheDirs (on_page_error p i s) = recycledDiskCacheDirs s"
  "browserCounter (on_page_error p i s) = browserCounter s"
  "activeInstances (on_page_error p i s) = activeInstances s"
  "retiredInstances (on_page_error p i s) = retiredInstances s"
  "instances (on_page_error p i s) = instances s"
  "browserDir (on_page_error p i s) = browserDir s"
  "instanceKillerInterval (on_page_error p i s) = instanceKillerInterval s"
  "sigintListener (on_page_error p i s) = sigintListener s"
  "destroyJobs (on_page_error p i s) = destroyJobs s"
  by (simp_all add: on_page_error_def Let_def split: option.splits list.splits promise.splits sum.splits prod.splits)

lemma on_page_closed_frame [simp]:
  "maxOpenPagesPerInstance (on_page_closed r s) = maxOpenPagesPerInstance s"
  "retireInstanceAfterRequestCount (on_page_closed r s) = retireInstanceAfterRequestCount s"
  "killInstanceAfterMillis (on_page_closed r s) = killInstanceAfterMillis s"
  "instanceKillerIntervalMillis (on_page_closed r s) = instanceKillerIntervalMillis s"
  "recycleDiskCache (on_page_closed r s) = recycleDiskCache s"
  "launchPuppeteerOptions (on_page_closed r s) = launchPuppeteerOptions s"
  "recycledDiskCacheDirs (on_page_closed r s) = recycledDiskCacheDirs s"
  "browserCounter (on_page_closed r s) = browserCounter s"
  "activeInstances (on_page_closed r s) = activeInstances s"
  "retiredInstances (on_page_closed r s) = retiredInstances s"
  "instances (on_page_closed r s) = instances s"
  "browserDir (on_page_closed r s) = browserDir s"
  "instanceKillerInterval (on_page_closed r s) = instanceKillerInterval s"
  "sigintListener (on_page_closed r s) = sigintListener s"
  "tasks (on_page_closed r s) = tasks s"
  "destroyJobs (on_page_closed r s) = destroyJobs s"
  by (simp_all add: on_page_closed_def Let_def split: option.splits list.splits promise.splits sum.splits prod.splits)

lemma retire_then_frame [simp]:
  "maxOpenPagesPerInstance (snd (retire_then found s)) = maxOpenPagesPerInstance s"
  "retireInstanceAfterRequestCount (snd (retire_then found s)) = retireInstanceAfterRequestCount s"
  "killInstanceAfterMillis (snd (retire_then found s)) = killInstanceAfterMillis s"
  "instanceKillerIntervalMillis (snd (retire_then found s)) = instanceKillerIntervalMillis s"
  "recycleDiskCache (snd (retire_then found s)) = recycleDiskCache s"
  "launchPuppeteerOptions (snd (retire_then found s)) = launchPuppeteerOptions s"
  "recycledDiskCacheDirs (snd (retire_then found s)) = recycledDiskCacheDirs s"
  "browserCounter (snd (retire_then found s)) = browserCounter s"
  "instances (snd (retire_then found s)) = instances s"
  "browserDir (snd (retire_then found s)) = browserDir s"
  "instanceKillerInterval (snd (retire_then found s)) = instanceKillerInterval s"
  "sigintListener (snd (retire_then found s)) = sigintListener s"
  "tasks (snd (retire_then found s)) = tasks s"
  "destroyJobs (snd (retire_then found s)) = destroyJobs s"
  by (simp_all add: retire_then_def Let_def split: option.splits list.splits promise.splits sum.splits prod.splits)

lemma deleteDiskCacheDir_frame [simp]:
  "maxOpenPagesPerInstance (deleteDiskCacheDir d s) = maxOpenPagesPerInstance s"
  "retireInstanceAfterRequestCount (deleteDiskCacheDir d s) = retireInstanceAfterRequestCount s"
  "killInstanceAfterMillis (deleteDiskCacheDir d s) = killInstanceAfterMillis s"
  "instanceKillerIntervalMillis (deleteDiskCacheDir d s) = instanceKillerIntervalMillis s"
  "recycleDiskCache (deleteDiskCacheDir d s) = recycleDiskCache s"
  "launchPuppeteerOptions (deleteDiskCacheDir d s) = launchPuppeteerOptions s"
  "recycledDiskCacheDirs (deleteDiskCacheDir d s) = recycledDiskCacheDirs s"
  "browserCounter (deleteDiskCacheDir d s) = browserCounter s"
  "activeInstances (deleteDiskCacheDir d s) = activeInstances s"
  "retiredInstances (deleteDiskCacheDir d s) = retiredInstances s"
  "instances (deleteDiskCacheDir d s) = instances s"
  "browserDir (deleteDiskCacheDir d s) = browserDir s"
  "instanceKillerInterval (deleteDiskCacheDir d s) = instanceKillerInterval s"
  "sigintListener (deleteDiskCacheDir d s) = sigintListener s"
  "tasks (deleteDiskCacheDir d s) = tasks s"
  "destroyJobs (deleteDiskCacheDir d s) = destroyJobs s"
  by (simp_all add: deleteDiskCacheDir_def Let_def split: option.splits list.splits promise.splits sum.splits prod.splits)

lemma deleteDiskCacheDir_settled_frame [simp]:
  "maxOpenPagesPerInstance (deleteDiskCacheDir_settled r s) = maxOpenPagesPerInstance s"
  "retireInstanceAfterRequestCount (deleteDiskCacheDir_settled r s) = retireInstanceAfterRequestCount s"
  "killInstanceAfterMillis (deleteDiskCacheDir_settled r s) = killInstanceAfterMillis s"
  "instanceKillerIntervalMillis (deleteDiskCacheDir_settled r s) = instanceKillerIntervalMillis s"
  "recycleDiskCache (deleteDiskCacheDir_settled r s) = recycleDiskCache s"
  "launchPuppeteerOptions (deleteDiskCacheDir_settled r s) = launchPuppeteerOptions s"
  "recycledDiskCacheDirs (deleteDiskCacheDir_settled r s) = recycledDiskCacheDirs s"
  "browserCounter (deleteDiskCacheDir_settled r s) = browserCounter s"
  "activeInstances (deleteDiskCacheDir_settled r s) = activeInstances s"
  "retiredInstances (deleteDiskCacheDir_settled r s) = retiredInstances s"
  "instances (deleteDiskCacheDir_settled r s) = instances s"
  "browserDir (deleteDiskCacheDir_settled r s) = browserDir s"
  "instanceKillerInterval (deleteDiskCacheDir_settled r s) = instanceKillerInterval s"
  "sigintListener (deleteDiskCacheDir_settled r s) = sigintListener s"
  "tasks (deleteDiskCacheDir_settled r s) = tasks s"
  "destroyJobs (deleteDiskCacheDir_settled r s) = destroyJobs s"
  by (simp_all add: deleteDiskCacheDir_settled_def Let_def split: option.splits list.splits promise.splits sum.splits prod.splits)

lemma destroy_flag_frame [simp]:
  "maxOpenPagesPerInstance (destroy_flag s i) = maxOpenPagesPerInstance s"
  "retireInstanceAfterRequestCount (destroy_flag s i) = retireInstanceAfterRequestCount s"
  "killInstanceAfterMillis (destroy_flag s i) = killInstanceAfterMillis s"
  "instanceKillerIntervalMillis (destroy_flag s i) = instanceKillerIntervalMillis s"
  "recycleDiskCache (destroy_flag s i) = recycleDiskCache s"
  "launchPuppeteerOptions (destroy_flag s i) = launchPuppeteerOptions s"
  "recycledDiskCacheDirs (destroy_flag s i) = recycledDiskCacheDirs s"
  "browserCounter (destroy_flag s i) = browserCounter s"
  "activeInstances (destroy_flag s i) = activeInstances s"
  "retiredInstances (destroy_flag s i) = retiredInstances s"
  "browserDir (destroy_flag s i) = browserDir s"
  "instanceKillerInterval (destroy_flag s i) = instanceKillerInterval s"
  "sigintListener (destroy_flag s i) = sigintListener s"
  "tasks (destroy_flag s i) = tasks s"
  "destroyJobs (destroy_flag s i) = destroyJobs s"
  "effects (destroy_flag s i) = effects s"
  by (simp_all add: destroy_flag_def Let_def split: option.splits list.splits promise.splits sum.splits prod.splits)

lemma destroy_frame [simp]:
  "maxOpenPagesPerInstance (destroy s) = maxOpenPagesPerInstance s"
  "retireInstanceAfterRequestCount (destroy s) = retireInstanceAfterRequestCount s"
  "killInstanceAfterMillis (destroy s) = killInstanceAfterMillis s"
  "instanceKillerIntervalMillis (destroy s) = instanceKillerIntervalMillis s"
  "recycleDiskCache (destroy s) = recycleDiskCache s"
  "launchPuppeteerOptions (destroy s) = launchPuppeteerOptions s"
  "recycledDiskCacheDirs (destroy s) = recycledDiskCacheDirs s"
  "browserCounter (destroy s) = browserCounter s"
  "activeInstances (destroy s) = activeInstances s"
  "retiredInstances (destroy s) = retiredInstances s"
  "browserDir (destroy s) = browserDir s"
  "tasks (destroy s) = tasks s"
  by (simp_all add: destroy_def Let_def foldl_frame)

lemma destroy_close_frame [simp]:
  "maxOpenPagesPerInstance (destroy_close b s) = maxOpenPagesPerInstance s"
  "retireInstanceAfterRequestCount (destroy_close b s) = retireInstanceAfterRequestCount s"
  "killInstanceAfterMillis (destroy_close b s) = killInstanceAfterMillis s"
  "instanceKillerIntervalMillis (destroy_close b s) = instanceKillerIntervalMillis s"
  "recycleDiskCache (destroy_close b s) = recycleDiskCache s"
  "launchPuppeteerOptions (destroy_close b s) = launchPuppeteerOptions s"
  "recycledDiskCacheDirs (destroy_close b s) = recycledDiskCacheDirs s"
  "browserCounter (destroy_close b s) = browserCounter s"
  "activeInstances (destroy_close b s) = activeInstances s"
  "retiredInstances (destroy_close b s) = retiredInstances s"
  "instances (destroy_close b s) = instances s"
  "browserDir (destroy_close b s) = browserDir s"
  "instanceKillerInterval (destroy_close b s) = instanceKillerInterval s"
  "sigintListener (destroy_close b s) = sigintListener s"
  "destroyJobs (destroy_close b s) = destroyJobs s"
  by (simp_all add: destroy_close_def Let_def split: option.splits list.splits promise.splits sum.splits prod.splits)

lemma destroy_closePromise_frame [simp]:
  "maxOpenPagesPerInstance (destroy_closePromise j k i s) = maxOpenPagesPerInstance s"
  "retireInstanceAfterRequestCount (destroy_closePromise j k i s) = retireInstanceAfterRequestCount s"
  "killInstanceAfterMillis (destroy_closePromise j k i s) = killInstanceAfterMillis s"
  "instanceKillerIntervalMillis (destroy_closePromise j k i s) = instanceKillerIntervalMillis s"
  "recycleDiskCache (destroy_closePromise j k i s) = recycleDiskCache s"
  "launchPuppeteerOptions (destroy_closePromise j k i s) = launchPuppeteerOptions s"
  "recycledDiskCacheDirs (destroy_closePromise j k i s) = recycledDiskCacheDirs s"
  "browserCounter (destroy_closePromise j k i s) = browserCounter s"
  "activeInstances (destroy_closePromise j k i s) = activeInstances s"
  "retiredInstances (destroy_closePromise j k i s) = retiredInstances s"
  "instances (destroy_closePromise j k i s) = instances s"
  "browserDir (destroy_closePromise j k i s) = browserDir s"
  "instanceKillerInterval (destroy_closePromise j k i s) = instanceKillerInterval s"
  "sigintListener (destroy_closePromise j k i s) = sigintListener s"
  by (simp_all add: destroy_closePromise_def Let_def split: option.splits list.splits promise.splits sum.splits prod.splits)

lemma destroy_closePromise_deleted_frame [simp]:
  "maxOpenPagesPerInstance (destroy_closePromise_deleted j k r s) = maxOpenPagesPerInstance s"
  "retireInstanceAfterRequestCount (destroy_closePromise_deleted j k r s) = retireInstanceAfterRequestCount s"
  "killInstanceAfterMillis (destroy_closePromise_deleted j k r s) = killInstanceAfterMillis s"
  "instanceKillerIntervalMillis (destroy_closePromise_deleted j k r s) = instanceKillerIntervalMillis s"
  "recycleDiskCache (destroy_closePromise_deleted j k r s) = recycleDiskCache s"
  "launchPuppeteerOptions (destroy_closePromise_deleted j k r s) = launchPuppeteerOptions s"
  "recycledDiskCacheDirs (destroy_closePromise_deleted j k r s) = recycledDiskCacheDirs s"
  "browserCounter (destroy_closePromise_deleted j k r s) = browserCounter s"
  "activeInstances (destroy_closePromise_deleted j k r s) = activeInstances s"
  "retiredInstances (destroy_closePromise_deleted j k r s) = retiredInstances s"
  "instances (destroy_closePromise_deleted j k r s) = instances s"
  "browserDir (destroy_closePromise_deleted j k r s) = browserDir s"
  "instanceKillerInterval (destroy_closePromise_deleted j k r s) = instanceKillerInterval s"
  "sigintListener (destroy_closePromise_deleted j k r s) = sigintListener s"
  "tasks (destroy_closePromise_deleted j k r s) = tasks s"
  by (simp_all add: destroy_closePromise_deleted_def Let_def split: option.splits list.splits promise.splits sum.splits prod.splits)

lemma destroy_drain_frame [simp]:
  "maxOpenPagesPerInstance (destroy_drain q s) = maxOpenPagesPerInstance s"
  "retireInstanceAfterRequestCount (destroy_drain q s) = retireInstanceAfterRequestCount s"
  "killInstanceAfterMillis (destroy_drain q s) = killInstanceAfterMillis s"
  "instanceKillerIntervalMillis (destroy_drain q s) = instanceKillerIntervalMillis s"
  "recycleDiskCache (destroy_drain q s) = recycleDiskCache s"
  "launchPuppeteerOptions (destroy_drain q s) = launchPuppeteerOptions s"
  "browserCounter (destroy_drain q s) = browserCounter s"
  "activeInstances (destroy_drain q s) = activeInstances s"
  "retiredInstances (destroy_drain q s) = retiredInstances s"
  "instances (destroy_drain q s) = instances s"
  "browserDir (destroy_drain q s) = browserDir s"
  "instanceKillerInterval (destroy_drain q s) = instanceKillerInterval s"
  "sigintListener (destroy_drain q s) = sigintListener s"
  "tasks (destroy_drain q s) = tasks s"
  "destroyJobs (destroy_drain q s) = destroyJobs s"
  by (induction q arbitrary: s) simp_all

lemma destroy_all_frame [simp]:
  "maxOpenPagesPerInstance (destroy_all j cs s) = maxOpenPagesPerInstance s"
  "retireInstanceAfterRequestCount (destroy_all j cs s) = retireInstanceAfterRequestCount s"
  "killInstanceAfterMillis (destroy_all j cs s) = killInstanceAfterMillis s"
  "instanceKillerIntervalMillis (destroy_all j cs s) = instanceKillerIntervalMillis s"
  "recycleDiskCache (destroy_all j cs s) = recycleDiskCache s"
  "launchPuppeteerOptions (destroy_all j cs s) = launchPuppeteerOptions s"
  "browserCounter (destroy_all j cs s) = browserCounter s"
  "activeInstances (destroy_all j cs s) = activeInstances s"
  "retiredInstances (destroy_all j cs s) = retiredInstances s"
  "instances (destroy_all j cs s) = instances s"
  "browserDir (destroy_all j cs s) = browserDir s"
  "instanceKillerInterval (destroy_all j cs s) = instanceKillerInterval s"
  "sigintListener (destroy_all j cs s) = sigintListener s"
  "tasks (destroy_all j cs s) = tasks s"
  by (simp_all add: destroy_all_def Let_def split: option.splits list.splits promise.splits sum.splits prod.splits)

lemma destroy_drain_deleted_frame [simp]:
  "maxOpenPagesPerInstance (destroy_drain_deleted j n rs r s) = maxOpenPagesPerInstance s"
  "retireInstanceAfterRequestCount (destroy_drain_deleted j n rs r s) = retireInstanceAfterRequestCount s"
  "killInstanceAfterMillis (destroy_drain_deleted j n rs r s) = killInstanceAfterMillis s"
  "instanceKillerIntervalMillis (destroy_drain_deleted j n rs r s) = instanceKillerIntervalMillis s"
  "recycleDiskCache (destroy_drain_deleted j n rs r s) = recycleDiskCache s"
  "launchPuppeteerOptions (destroy_drain_deleted j n rs r s) = launchPuppeteerOptions s"
  "recycledDiskCacheDirs (destroy_drain_deleted j n rs r s) = recycledDiskCacheDirs s"
  "browserCounter (destroy_drain_deleted j n rs r s) = browserCounter s"
  "activeInstances (destroy_drain_deleted j n rs r s) = activeInstances s"
  "retiredInstances (destroy_drain_deleted j n rs r s) = retiredInstances s"
  "instances (destroy_drain_deleted j n rs r s) = instances s"
  "browserDir (destroy_drain_deleted j n rs r s) = browserDir s"
  "instanceKillerInterval (destroy_drain_deleted j n rs r s) = instanceKillerInterval s"
  "sigintListener (destroy_drain_deleted j n rs r s) = sigintListener s"
  "tasks (destroy_drain_deleted j n rs r s) = tasks s"
  by (simp_all add: destroy_drain_deleted_def Let_def split: option.splits list.splits promise.splits sum.splits prod.splits)

lemma destroy_returned_frame [simp]:
  "maxOpenPagesPerInstance (destroy_returned j rs s) = maxOpenPagesPerInstance s"
  "retireInstanceAfterRequestCount (destroy_returned j rs s) = retireInstanceAfterRequestCount s"
  "killInstanceAfterMillis (destroy_returned j rs s) = killInstanceAfterMillis s"
  "instanceKillerIntervalMillis (destroy_returned j rs s) = instanceKillerIntervalMillis s"
  "recycleDiskCache (destroy_returned j rs s) = recycleDiskCache s"
  "launchPuppeteerOptions (destroy_returned j rs s) = launchPuppeteerOptions s"
  "recycledDiskCacheDirs (destroy_returned j rs s) = recycledDiskCacheDirs s"
  "browserCounter (destroy_returned j rs s) = browserCounter s"
  "activeInstances (destroy_returned j rs s) = activeInstances s"
  "retiredInstances (destroy_returned j rs s) = retiredInstances s"
  "instances (destroy_returned j rs s) = instances s"
  "browserDir (destroy_returned j rs s) = browserDir s"
  "instanceKillerInterval (destroy_returned j rs s) = instanceKillerInterval s"
  "sigintListener (destroy_returned j rs s) = sigintListener s"
  "tasks (destroy_returned j rs s) = tasks s"
  by (simp_all add: destroy_returned_def Let_def split: option.splits list.splits promise.splits sum.splits prod.splits)

lemma launch_rejected_inst [simp]:
  "instId (instances (launch_rejected i e s) x) = instId (instances s x)"
  "activePages (instances (launch_rejected i e s) x) = activePages (instances s x)"
  "totalPages (instances (launch_rejected i e s) x) = totalPages (instances s x)"
  "lastPageOpenedAt (instances (launch_rejected i e s) x) = lastPageOpenedAt (instances s x)"
  "killed (instances (launch_rejected i e s) x) = killed (instances s x)"
  "childProcess (instances (launch_rejected i e s) x) = childProcess (instances s x)"
  "recycleDiskCacheDir (instances (launch_rejected i e s) x) = recycleDiskCacheDir (instances s x)"
  by (simp_all add: launch_rejected_def Let_def split: option.splits list.splits promise.splits sum.splits prod.splits)

lemma launchPuppeteerFunction_mkdtemp_inst [simp]:
  "instId (instances (launchPuppeteerFunction_mkdtemp i r s) x) = instId (instances s x)"
  "activePages (instances (launchPuppeteerFunction_mkdtemp i r s) x) = activePages (instances s x)"
  "totalPages (instances (launchPuppeteerFunction_mkdtemp i r s) x) = totalPages (instances s x)"
  "lastPageOpenedAt (instances (launchPuppeteerFunction_mkdtemp i r s) x) = lastPageOpenedAt (instances s x)"
  "killed (instances (launchPuppeteerFunction_mkdtemp i r s) x) = killed (instances s x)"
  "childProcess (instances (launchPuppeteerFunction_mkdtemp i r s) x) = childProcess (instances s x)"
  "recycleDiskCacheDir (instances (launchPuppeteerFunction_mkdtemp i r s) x) = recycleDiskCacheDir (instances s x)"
  by (simp_all add: launchPuppeteerFunction_mkdtemp_def Let_def split: option.splits list.splits promise.splits sum.splits prod.splits)

lemma launchInstance_then_inst [simp]:
  "instId (instances (launchInstance_then i b proc s) x) = instId (instances s x)"
  "activePages (instances (launchInstance_then i b proc s) x) = activePages (instances s x)"
  "totalPages (instances (launchInstance_then i b proc s) x) = totalPages (instances s x)"
  "browserPromise (instances (launchInstance_then i b proc s) x) = browserPromise (instances s x)"
  "lastPageOpenedAt (instances (launchInstance_then i b proc s) x) = lastPageOpenedAt (instances s x)"
  "killed (instances (launchInstance_then i b proc s) x) = killed (instances s x)"
  by (simp_all add: launchInstance_then_def Let_def split: option.splits list.splits promise.splits sum.splits prod.splits)

lemma launchPuppeteerFunction_launched_inst [simp]:
  "instId (instances (launchPuppeteerFunction_launched i dir r s) x) = instId (instances s x)"
  "activePages (instances (launchPuppeteerFunction_launched i dir r s) x) = activePages (instances s x)"
  "totalPages (instances (launchPuppeteerFunction_launched i dir r s) x) = totalPages (instances s x)"
  "lastPageOpenedAt (instances (launchPuppeteerFunction_launched i dir r s) x) = lastPageOpenedAt (instances s x)"
  "killed (instances (launchPuppeteerFunction_launched i dir r s) x) = killed (instances s x)"
  by (simp_all add: launchPuppeteerFunction_launched_def Let_def split: option.splits list.splits promise.splits sum.splits prod.splits)

lemma on_targetdestroyed_inst [simp]:
  "instId (instances (on_targetdestroyed i ty s) x) = instId (instances s x)"
  "totalPages (instances (on_targetdestroyed i ty s) x) = totalPages (instances s x)"
  "browserPromise (instances (on_targetdestroyed i ty s) x) = browserPromise (instances s x)"
  "lastPageOpenedAt (instances (on_targetdestroyed i ty s) x) = lastPageOpenedAt (instances s x)"
  "killed (instances (on_targetdestroyed i ty s) x) = killed (instances s x)"
  "childProcess (instances (on_targetdestroyed i ty s) x) = childProcess (instances s x)"
  "recycleDiskCacheDir (instances (on_targetdestroyed i ty s) x) = recycleDiskCacheDir (instances s x)"
  by (simp_all add: on_targetdestroyed_def Let_def split: option.splits list.splits promise.splits sum.splits prod.splits)

lemma killInstance_recycleDiskCache_inst [simp]:
  "instId (instances (killInstance_recycleDiskCache i s) x) = instId (instances s x)"
  "activePages (instances (killInstance_recycleDiskCache i s) x) = activePages (instances s x)"
  "totalPages (instances (killInstance_recycleDiskCache i s) x) = totalPages (instances s x)"
  "browserPromise (instances (killInstance_recycleDiskCache i s) x) = browserPromise (instances s x)"
  "lastPageOpenedAt (instances (killInstance_recycleDiskCache i s) x) = lastPageOpenedAt (instances s x)"
  "killed (instances (killInstance_recycleDiskCache i s) x) = killed (instances s x)"
  "childProcess (instances (killInstance_recycleDiskCache i s) x) = childProcess (instances s x)"
  by (simp_all add: killInstance_recycleDiskCache_def Let_def split: option.splits list.splits promise.splits sum.splits prod.splits)

lemma killInstance_timeout_inst [simp]:
  "instId (instances (killInstance_timeout i cp s) x) = instId (instances s x)"
  "activePages (instances (killInstance_timeout i cp s) x) = activePages (instances s x)"
  "totalPages (instances (killInstance_timeout i cp s) x) = totalPages (instances s x)"
  "browserPromise (instances (killInstance_timeout i cp s) x) = browserPromise (instances s x)"
  "lastPageOpenedAt (instances (killInstance_timeout i cp s) x) = lastPageOpenedAt (instances s x)"
  "killed (instances (killInstance_timeout i cp s) x) = killed (instances s x)"
  "childProcess (instances (killInstance_timeout i cp s) x) = childProcess (instances s x)"
  by (simp_all add: killInstance_timeout_def Let_def split: option.splits list.splits promise.splits sum.splits prod.splits)

lemma killInstance_closed_inst [simp]:
  "instId (instances (killInstance_closed i r s) x) = instId (instances s x)"
  "activePages (instances (killInstance_closed i r s) x) = activePages (instances s x)"
  "totalPages (instances (killInstance_closed i r s) x) = totalPages (instances s x)"
  "browserPromise (instances (killInstance_closed i r s) x) = browserPromise (instances s x)"
  "lastPageOpenedAt (instances (killInstance_closed i r s) x) = lastPageOpenedAt (instances s x)"
  "killed (instances (killInstance_closed i r s) x) = killed (instances s x)"
  "childProcess (instances (killInstance_closed i r s) x) = childProcess (instances s x)"
  by (simp_all add: killInstance_closed_def Let_def split: option.splits list.splits promise.splits sum.splits prod.splits)

lemma killInstance_browser_inst [simp]:
  "instId (instances (killInstance_browser i s) x) = instId (instances s x)"
  "activePages (instances (killInstance_browser i s) x) = activePages (instances s x)"
  "totalPages (instances (killInstance_browser i s) x) = totalPages (instances s x)"
  "browserPromise (instances (killInstance_browser i s) x) = browserPromise (instances s x)"
  "lastPageOpenedAt (instances (killInstance_browser i s) x) = lastPageOpenedAt (instances s x)"
  "childProcess (instances (killInstance_browser i s) x) = childProcess (instances s x)"
  by (simp_all add: killInstance_browser_def Let_def split: option.splits list.splits promise.splits sum.splits prod.splits)

lemma destroy_flag_inst [simp]:
  "instId (instances (destroy_flag s i) x) = instId (instances s x)"
  "activePages (instances (destroy_flag s i) x) = activePages (instances s x)"
  "totalPages (instances (destroy_flag s i) x) = totalPages (instances s x)"
  "browserPromise (instances (destroy_flag s i) x) = browserPromise (instances s x)"
  "lastPageOpenedAt (instances (destroy_flag s i) x) = lastPageOpenedAt (instances s x)"
  "childProcess (instances (destroy_flag s i) x) = childProcess (instances s x)"
  "recycleDiskCacheDir (instances (destroy_flag s i) x) = recycleDiskCacheDir (instances s x)"
  by (simp_all add: destroy_flag_def Let_def split: option.splits list.splits promise.splits sum.splits prod.splits)

lemma foldl_destroy_flag_instances:
  "instances (foldl destroy_flag s ids) x =
     (if x \<in> set ids then (instances s x)\<lparr>killed := True\<rparr> else instances s x)"
  by (induction ids arbitrary: s) (simp_all add: destroy_flag_def)

lemma destroy_instances:
  "instances (destroy s) x =
     (if x \<in> set (activeInstances s) \<union> set (retiredInstances s)
      then (instances s x)\<lparr>killed := True\<rparr> else instances s x)"
  by (simp add: destroy_def Let_def foldl_destroy_flag_instances)

lemma destroy_inst [simp]:
  "instId (instances (destroy s) x) = instId (instances s x)"
  "activePages (instances (destroy s) x) = activePages (instances s x)"
  "totalPages (instances (destroy s) x) = totalPages (instances s x)"
  "browserPromise (instances (destroy s) x) = browserPromise (instances s x)"
  "lastPageOpenedAt (instances (destroy s) x) = lastPageOpenedAt (instances s x)"
  "childProcess (instances (destroy s) x) = childProcess (instances s x)"
  "recycleDiskCacheDir (instances (destroy s) x) = recycleDiskCacheDir (instances s x)"
  by (simp_all add: destroy_instances)

section \<open>The maps\<close>

lemma set_obj_set [simp]: "set (obj_set i ks) = insert i (set ks)"
  by (auto simp: obj_set_def set_insort_key)

lemma set_obj_delete [simp]: "set (obj_delete i ks) = set ks - {i}"
  by (auto simp: obj_delete_def)

lemma retireInstance_active [simp]:
  "activeInstances (retireInstance i s) = obj_delete i (activeInstances s)"
  by (simp add: retireInstance_def obj_delete_def)

lemma retireInstance_retired:
  "set (retiredInstances (retireInstance i s)) =
     (if i \<in> set (activeInstances s) then insert i (set (retiredInstances s))
      else set (retiredInstances s))"
  by (simp add: retireInstance_def)

lemma killInstance_retired [simp]:
  "retiredInstances (killInstance i s) = obj_delete i (retiredInstances s)"
  by (simp add: killInstance_def)

lemma launchPuppeteerFunction_fst [simp]:
  "(fst (launchPuppeteerFunction i s) = Fulfilled b) = False"
  by (simp add: launchPuppeteerFunction_def split: option.splits list.splits)

lemma launchInstance_fst [simp]: "fst (launchInstance now s) = browserCounter s"
  by (simp add: launchInstance_def Let_def split_beta)

lemma launchInstance_counter [simp]:
  "browserCounter (snd (launchInstance now s)) = Suc (browserCounter s)"
  by (simp add: launchInstance_def Let_def split_beta split: promise.splits)

lemma launchInstance_active [simp]:
  "activeInstances (snd (launchInstance now s)) = obj_set (browserCounter s) (activeInstances s)"
  by (simp add: launchInstance_def Let_def split_beta split: promise.splits)

lemma launchInstance_tasks:
  "length (tasks (snd (launchInstance now s))) = Suc (length (tasks s))"
  by (simp add: launchInstance_def Let_def split_beta launchPuppeteerFunction_def
      split: promise.splits option.splits list.splits)

lemma launchInstance_instances_other:
  "x \<noteq> browserCounter s \<Longrightarrow> instances (snd (launchInstance now s)) x = instances s x"
  by (simp add: launchInstance_def Let_def split_beta split: promise.splits)

lemma launchInstance_instances_new:
  "activePages (instances (snd (launchInstance now s)) (browserCounter s)) = 0"
  "totalPages (instances (snd (launchInstance now s)) (browserCounter s)) = 0"
  "browserPromise (instances (snd (launchInstance now s)) (browserCounter s)) \<noteq> Fulfilled b"
  by (simp_all add: launchInstance_def Let_def split_beta new_PuppeteerInstance_def split: promise.splits)

lemma maps_inv_cong:
  "activeInstances s' = activeInstances s \<Longrightarrow> retiredInstances s' = retiredInstances s \<Longrightarrow>
   browserCounter s' = browserCounter s \<Longrightarrow> maps_inv s' = maps_inv s"
  by (simp add: maps_inv_def)

lemma maps_inv_shrink:
  "activeInstances s' = activeInstances s \<Longrightarrow> set (retiredInstances s') \<subseteq> set (retiredInstances s) \<Longrightarrow>
   browserCounter s' = browserCounter s \<Longrightarrow> maps_inv s \<Longrightarrow> maps_inv s'"
  by (auto simp: maps_inv_def)

lemma maps_inv_helpers [simp]:
  "maps_inv (emit es s) = maps_inv s" "maps_inv (add_tasks ts s) = maps_inv s"
  "maps_inv (remove_task t s) = maps_inv s" "maps_inv (update_instance i f s) = maps_inv s"
  "maps_inv (set_chain j k c s) = maps_inv s" "maps_inv (set_phase j ph s) = maps_inv s"
  by (simp_all add: maps_inv_def)

lemma retireInstance_inv: "maps_inv s \<Longrightarrow> maps_inv (retireInstance i s)"
  by (auto simp: maps_inv_def retireInstance_retired)

lemma killInstance_inv: "maps_inv s \<Longrightarrow> maps_inv (killInstance i s)"
  by (auto simp: maps_inv_def)

lemma killRetiredInstances_inv: "maps_inv s \<Longrightarrow> maps_inv (killRetiredInstances now s)"
  unfolding killRetiredInstances_def
  by (rule foldl_inv) (simp_all add: killRetiredInstances_each_def killInstance_inv)

lemma launchInstance_inv: "maps_inv s \<Longrightarrow> maps_inv (snd (launchInstance now s))"
  by (auto simp: maps_inv_def less_Suc_eq)

lemma newPage_inv: "maps_inv s \<Longrightarrow> maps_inv (newPage now s)"
  by (simp add: newPage_def newPage_sync_def Let_def split_beta retireInstance_inv launchInstance_inv
      split: option.splits)

lemma fire_inv:
  assumes "maps_inv s"
  shows "maps_inv (fire e s)"
proof (cases e)
  case (NewPage now)
  with assms show ?thesis by (simp add: newPage_inv)
next
  case (ReaperTick now)
  with assms show ?thesis by (simp add: killRetiredInstances_inv)
next
  case (Disconnected i)
  with assms show ?thesis by (simp add: on_disconnected_def retireInstance_inv)
next
  case (LaunchCatch i)
  with assms show ?thesis by (simp add: launchInstance_catch_def retireInstance_inv)
next
  case (BrowserSettledForPage i)
  with assms show ?thesis
    by (simp add: newPage_browser_def newPage_catch_def retireInstance_inv split: promise.splits)
next
  case (PageSettled i r)
  with assms show ?thesis
    by (simp add: newPage_page_def newPage_catch_def retireInstance_inv split: sum.splits)
next
  case (PageCloseKillTimeout i)
  with assms show ?thesis by (simp add: killInstance_inv)
next
  case (BrowserSettledForPages i)
  with assms show ?thesis
    by (simp add: killRetiredInstances_browser_def killInstance_inv split: promise.splits)
next
  case (PagesSettled i r)
  with assms show ?thesis
    by (simp add: killRetiredInstances_pages_def killInstance_inv split: sum.splits)
next
  case (FilterSettled b ids)
  with assms show ?thesis
    by (simp add: retire_then_def retireInstance_inv split: option.splits sum.splits)
qed (use assms in \<open>simp_all add: maps_inv_def split: option.splits chain.splits destroy_phase.splits\<close>)

lemma step_inv: "maps_inv s \<Longrightarrow> maps_inv (step e s)"
  by (simp add: step_def fire_inv)

lemma run_inv: "maps_inv s \<Longrightarrow> maps_inv (run es s)"
  unfolding run_def by (rule foldl_inv) (simp_all add: step_inv)

lemma constructor_inv: "maps_inv (constructor opts)"
  by (simp add: maps_inv_def constructor_def Let_def)


section \<open>Selection and the lifetime cap\<close>

lemma cap_inv_helpers [simp]:
  "cap_inv (emit es s) = cap_inv s" "cap_inv (add_tasks ts s) = cap_inv s"
  "cap_inv (remove_task t s) = cap_inv s"
  "cap_inv (set_chain j k c s) = cap_inv s" "cap_inv (set_phase j ph s) = cap_inv s"
  by (simp_all add: cap_inv_def)

lemma retireInstance_cap: "cap_inv s \<Longrightarrow> cap_inv (retireInstance i s)"
  by (simp add: cap_inv_def)

lemma newPage_sync_fst:
  "fst (newPage_sync now s) = (case select_instance s of Some i \<Rightarrow> i | None \<Rightarrow> browserCounter s)"
  by (simp add: newPage_sync_def Let_def split_beta split: option.splits)

lemma newPage_cap: "cap_inv s \<Longrightarrow> cap_inv (newPage now s)"
  by (auto simp: newPage_def newPage_sync_def Let_def split_beta cap_inv_def
      launchInstance_instances_other launchInstance_instances_new split: option.splits)

lemma fire_cap:
  assumes "cap_inv s"
  shows "cap_inv (fire e s)"
proof (cases e)
  case (NewPage now)
  with assms show ?thesis by (simp add: newPage_cap)
next
  case (Disconnected i)
  with assms show ?thesis by (simp add: on_disconnected_def retireInstance_cap)
next
  case (LaunchCatch i)
  with assms show ?thesis by (simp add: launchInstance_catch_def retireInstance_cap)
next
  case (BrowserSettledForPage i)
  with assms show ?thesis
    by (simp add: newPage_browser_def newPage_catch_def retireInstance_cap split: promise.splits)
next
  case (PageSettled i r)
  with assms show ?thesis
    by (simp add: newPage_page_def newPage_catch_def retireInstance_cap split: sum.splits)
next
  case (FilterSettled b ids)
  with assms show ?thesis
    by (simp add: retire_then_def retireInstance_cap split: option.splits sum.splits)
qed (use assms in \<open>simp_all add: cap_inv_def split: option.splits chain.splits destroy_phase.splits\<close>)

lemma run_cap: "cap_inv s \<Longrightarrow> cap_inv (run es s)"
  unfolding run_def by (rule foldl_inv) (simp_all add: step_def fire_cap)

lemma constructor_cap: "cap_inv (constructor opts)"
  by (simp add: cap_inv_def constructor_def Let_def)

lemma select_instance_foldl:
  "foldl (\<lambda>instance i. if activePages (instances s i) \<ge> maxOpenPagesPerInstance s then instance else Some i) None ks = r \<Longrightarrow>
     (case r of
        None \<Rightarrow> \<forall>i \<in> set ks. maxOpenPagesPerInstance s \<le> activePages (instances s i)
      | Some i \<Rightarrow> i \<in> set ks \<and> activePages (instances s i) < maxOpenPagesPerInstance s)"
  by (induction ks arbitrary: r rule: rev_induct) (auto split: option.splits if_splits)

lemma select_instance_active:
  "select_instance s = Some i \<Longrightarrow>
     i \<in> set (activeInstances s) \<and> activePages (instances s i) < maxOpenPagesPerInstance s"
  using select_instance_foldl[of s "activeInstances s" "Some i"]
  by (simp add: select_instance_def)

lemma select_instance_None:
  "select_instance s = None \<longleftrightarrow>
     (\<forall>i \<in> set (activeInstances s). maxOpenPagesPerInstance s \<le> activePages (instances s i))"
proof
  assume "select_instance s = None"
  then show "\<forall>i \<in> set (activeInstances s). maxOpenPagesPerInstance s \<le> activePages (instances s i)"
    using select_instance_foldl[of s "activeInstances s" None] by (simp add: select_instance_def)
next
  assume a: "\<forall>i \<in> set (activeInstances s). maxOpenPagesPerInstance s \<le> activePages (instances s i)"
  show "select_instance s = None"
  proof (cases "select_instance s")
    case (Some i)
    from select_instance_active[OF this] a show ?thesis by auto
  qed simp
qed

lemma newPage_sync_totalPages:
  "totalPages (instances (snd (newPage_sync now s)) x) =
     (if x = fst (newPage_sync now s)
      then (case select_instance s of Some i \<Rightarrow> totalPages (instances s i) + 1 | None \<Rightarrow> 1)
      else totalPages (instances s x))"
  by (simp add: newPage_sync_def Let_def split_beta launchInstance_instances_other
      launchInstance_instances_new split: option.splits)

lemma newPage_sync_activePages:
  "activePages (instances (snd (newPage_sync now s)) x) =
     (if x = fst (newPage_sync now s)
      then (case select_instance s of Some i \<Rightarrow> activePages (instances s i) + 1 | None \<Rightarrow> 1)
      else activePages (instances s x))"
  by (simp add: newPage_sync_def Let_def split_beta launchInstance_instances_other
      launchInstance_instances_new split: option.splits)

lemma newPage_sync_active:
  "activeInstances (snd (newPage_sync now s)) =
     (if retireInstanceAfterRequestCount s
           \<le> totalPages (instances (snd (newPage_sync now s)) (fst (newPage_sync now s)))
      then obj_delete (fst (newPage_sync now s))
             (case select_instance s of
                Some i \<Rightarrow> activeInstances s
              | None \<Rightarrow> obj_set (browserCounter s) (activeInstances s))
      else (case select_instance s of
                Some i \<Rightarrow> activeInstances s
              | None \<Rightarrow> obj_set (browserCounter s) (activeInstances s)))"
  by (simp add: newPage_sync_def Let_def split_beta launchInstance_instances_other
      launchInstance_instances_new split: option.splits)

lemma newPage_sync_retired:
  "set (retiredInstances (snd (newPage_sync now s))) =
     (if retireInstanceAfterRequestCount s
           \<le> totalPages (instances (snd (newPage_sync now s)) (fst (newPage_sync now s)))
      then insert (fst (newPage_sync now s)) (set (retiredInstances s))
      else set (retiredInstances s))"
  using select_instance_active[of s]
  by (auto simp: newPage_sync_def Let_def split_beta launchInstance_instances_other
      launchInstance_instances_new retireInstance_retired split: option.splits)

lemma newPage_sync_tasks:
  "AwaitBrowserForPage (fst (newPage_sync now s)) \<in> set (tasks (snd (newPage_sync now s)))"
  by (simp add: newPage_sync_def Let_def split_beta)



lemma launchInstance_effects:
  "MkdtempCalled (browserCounter s) \<in> set (effects (snd (launchInstance now s))) \<or>
   (\<exists>as. LaunchCalled (browserCounter s) as \<in> set (effects (snd (launchInstance now s)))) \<or>
   (recycleDiskCache s \<and> recycledDiskCacheDirs s = None)"
  by (auto simp: launchInstance_def Let_def split_beta launchPuppeteerFunction_def
      split: promise.splits option.splits list.splits)

lemma effects_mono_emit: "x \<in> set (effects s) \<Longrightarrow> x \<in> set (effects (emit es s))"
  by simp

lemma retireInstance_effects_mono: "x \<in> set (effects s) \<Longrightarrow> x \<in> set (effects (retireInstance i s))"
  by (simp add: retireInstance_def)

lemma newPage_launch_effects:
  assumes "select_instance s = None"
  shows "MkdtempCalled (browserCounter s) \<in> set (effects (newPage now s)) \<or>
         (\<exists>as. LaunchCalled (browserCounter s) as \<in> set (effects (newPage now s))) \<or>
         (recycleDiskCache s \<and> recycledDiskCacheDirs s = None)"
proof -
  have m: "x \<in> set (effects (snd (launchInstance now s))) \<Longrightarrow> x \<in> set (effects (newPage now s))" for x
    using assms
    by (simp add: newPage_def newPage_sync_def Let_def split_beta retireInstance_effects_mono)
  from launchInstance_effects[of s now] m show ?thesis by blast
qed

lemma newPage_select_effects:
  assumes "select_instance s = Some i"
  shows "set (effects (newPage now s)) \<subseteq> insert (LogDebug ''PuppeteerPool: retiring browser'') (set (effects s))"
  using assms select_instance_active[OF assms]
  by (auto simp: newPage_def newPage_sync_def Let_def split_beta retireInstance_def)


section \<open>The page counters\<close>

lemma newPage_instances:
  "instances (newPage now s) x = instances (snd (newPage_sync now s)) x"
  by (simp add: newPage_def)


lemma fire_activePages:
  "activePages (instances (fire e s) x) =
     (case e of
        NewPage now \<Rightarrow> activePages (instances (snd (newPage_sync now s)) x)
      | TargetDestroyed i ty \<Rightarrow>
          (if i = x \<and> (ty = Page \<or> ty = Other) then activePages (instances s x) - 1
           else activePages (instances s x))
      | _ \<Rightarrow> activePages (instances s x))"
  by (cases e) (auto simp: newPage_def on_targetdestroyed_def Let_def split_beta split: option.splits chain.splits destroy_phase.splits)







lemma run_Cons: "run (e # es) s = run es (step e s)"
  by (simp add: run_def)



lemma constructor_browserCounter [simp]: "browserCounter (constructor opts) = 0"
  by (simp add: constructor_def Let_def)


lemma newPage_sync_lastPageOpenedAt:
  "lastPageOpenedAt (instances (snd (newPage_sync now s)) (fst (newPage_sync now s))) = now"
  by (simp add: newPage_sync_def Let_def split_beta split: option.splits)

lemma fire_activePages_decrease:
  "x < browserCounter s \<Longrightarrow> activePages (instances (fire e s) x) < activePages (instances s x) \<Longrightarrow>
     \<exists>ty. e = TargetDestroyed x ty \<and> (ty = Page \<or> ty = Other)"
  by (auto simp: fire_activePages newPage_sync_activePages newPage_sync_fst
      split: event.splits option.splits if_splits)


section \<open>Finding an instance by its browser\<close>









section \<open>The promise of destroy\<close>

lemma returns_ok_emit:
  "returns_ok (emit es s) = (returns_ok s \<and> (\<forall>j r. DestroyReturned j r \<in> set es \<longrightarrow> r = Inr ()))"
  by (auto simp: returns_ok_def)

lemma returns_ok_cong: "effects s' = effects s \<Longrightarrow> returns_ok s' = returns_ok s"
  by (simp add: returns_ok_def)

lemma returns_ok_helpers [simp]:
  "returns_ok (add_tasks ts s) = returns_ok s"
  "returns_ok (remove_task t s) = returns_ok s" "returns_ok (update_instance i f s) = returns_ok s"
  "returns_ok (set_chain j k c s) = returns_ok s" "returns_ok (set_phase j ph s) = returns_ok s"
  by (simp_all add: returns_ok_def)

lemma returns_ok_updates [simp]:
  "returns_ok (s\<lparr>recycledDiskCacheDirs := a\<rparr>) = returns_ok s"
  "returns_ok (s\<lparr>browserDir := b\<rparr>) = returns_ok s"
  by (simp_all add: returns_ok_def)

lemma retireInstance_ok [simp]: "returns_ok (retireInstance i s) = returns_ok s"
  by (auto simp: retireInstance_def returns_ok_def)

lemma killInstance_ok [simp]: "returns_ok (killInstance i s) = returns_ok s"
  by (auto simp: killInstance_def returns_ok_def)

lemma killInstance_recycleDiskCache_ok [simp]:
  "returns_ok (killInstance_recycleDiskCache i s) = returns_ok s"
  by (auto simp: killInstance_recycleDiskCache_def returns_ok_def split: option.splits)

lemma launchPuppeteerFunction_ok [simp]:
  "returns_ok (snd (launchPuppeteerFunction i s)) = returns_ok s"
  by (auto simp: launchPuppeteerFunction_def returns_ok_def split: option.splits list.splits)

lemma launchInstance_ok [simp]: "returns_ok (snd (launchInstance now s)) = returns_ok s"
proof -
  have "effects (snd (launchInstance now s)) =
        effects (snd (launchPuppeteerFunction (browserCounter s)
           (emit [LogDebug ''PuppeteerPool: launching new browser''] (s\<lparr>browserCounter := browserCounter s + 1\<rparr>))))"
    by (simp add: launchInstance_def Let_def split_beta split: promise.splits)
  then have "returns_ok (snd (launchInstance now s)) =
       returns_ok (snd (launchPuppeteerFunction (browserCounter s)
           (emit [LogDebug ''PuppeteerPool: launching new browser''] (s\<lparr>browserCounter := browserCounter s + 1\<rparr>))))"
    by (rule returns_ok_cong)
  then show ?thesis by (simp add: returns_ok_emit) (simp add: returns_ok_def)
qed

lemma newPage_ok [simp]: "returns_ok (newPage now s) = returns_ok s"
  by (simp add: newPage_def newPage_sync_def Let_def split_beta split: option.splits)

lemma killRetiredInstances_ok: "returns_ok s \<Longrightarrow> returns_ok (killRetiredInstances now s)"
  unfolding killRetiredInstances_def
  by (rule foldl_inv) (simp_all add: killRetiredInstances_each_def returns_ok_emit)

lemma killAllInstances_ok: "returns_ok s \<Longrightarrow> returns_ok (killAllInstances s)"
  unfolding killAllInstances_def
  by (rule foldl_inv) (simp_all add: killAllInstances_each_def returns_ok_emit split: option.splits)

lemma destroy_ok: "returns_ok s \<Longrightarrow> returns_ok (destroy s)"
proof -
  assume a: "returns_ok s"
  have "effects (destroy s) = effects s @ [ClearInterval, RemoveSigintListener]"
    by (simp add: destroy_def Let_def foldl_frame)
  with a show ?thesis by (auto simp: returns_ok_def)
qed

lemma destroy_drain_ok: "returns_ok s \<Longrightarrow> returns_ok (destroy_drain q s)"
  by (induction q arbitrary: s) (simp_all add: deleteDiskCacheDir_def returns_ok_emit)

lemma promise_catch_ok [simp]: "promise_catch r (\<lambda>err. Inr ()) = Inr ()"
  by (cases r) (simp_all add: promise_catch_def)

lemma fire_ok:
  assumes "returns_ok s"
  shows "returns_ok (fire e s)"
proof (cases e)
  case Destroy
  with assms show ?thesis by (simp add: destroy_ok)
next
  case Sigint
  with assms show ?thesis by (simp add: killAllInstances_ok)
next
  case (ReaperTick now)
  with assms show ?thesis by (simp add: killRetiredInstances_ok)
next
  case (ClosePromisesAll j)
  with assms show ?thesis
    by (simp add: destroy_all_def returns_ok_emit destroy_drain_ok split: option.splits)
qed (use assms in \<open>simp_all add: returns_ok_emit
      on_disconnected_def on_targetdestroyed_def Let_def launchPuppeteerFunction_mkdtemp_def
      launch_rejected_def launchPuppeteerFunction_launched_def launchInstance_then_def
      launchInstance_catch_def newPage_browser_def newPage_catch_def newPage_page_def
      on_page_error_def on_page_closed_def killRetiredInstances_browser_def killRetiredInstances_pages_def
      killInstance_timeout_def killInstance_browser_def killInstance_closed_def
      retire_then_def split_beta destroy_closePromise_def destroy_close_def deleteDiskCacheDir_def
      destroy_closePromise_deleted_def deleteDiskCacheDir_settled_def
      destroy_drain_deleted_def destroy_returned_def
      split: option.splits chain.splits destroy_phase.splits promise.splits sum.splits\<close>)

lemma destroy_closePromise_jobs:
  "settled i s \<Longrightarrow>
     destroyJobs (destroy_closePromise j k i s) = destroyJobs (set_chain j k (next_chain i s) s)"
  by (simp add: destroy_closePromise_def next_chain_def settled_def set_chain_def
      split: promise.splits option.splits)

lemma next_chain_weight:
  "settled i s \<Longrightarrow> chain_weight (next_chain i s) \<le> 1 \<and>
     (case next_chain i s of ChainAwaitBrowser i' \<Rightarrow> False | _ \<Rightarrow> True)"
  by (simp add: next_chain_def settled_def chain_weight_def split: promise.splits option.splits)

lemma list_all_update: "list_all P xs \<Longrightarrow> P c \<Longrightarrow> list_all P (xs[k := c])"
  by (induction xs arbitrary: k) (auto split: nat.splits)

lemma chain_ready_cong: "instances s' = instances s \<Longrightarrow> chain_ready s' = chain_ready s"
  by (rule ext) (simp add: chain_ready_def settled_def split: chain.splits)

lemma browsers_settled_cong:
  assumes "instances s' = instances s"
  shows "browsers_settled job s' = browsers_settled job s"
proof -
  from assms have "chain_ready s' = chain_ready s" by (rule chain_ready_cong)
  then show ?thesis by (simp add: browsers_settled_def)
qed

lemma sum_list_weight_update:
  "k < length cs \<Longrightarrow>
     sum_list (map chain_weight (cs[k := c])) + chain_weight (cs ! k)
       = sum_list (map chain_weight cs) + chain_weight c"
  by (induction cs arbitrary: k) (auto split: nat.splits)

lemma all_settled_all:
  "list_all (\<lambda>c. case c of ChainSettled r \<Rightarrow> True | _ \<Rightarrow> False) cs \<Longrightarrow>
     (case chain_rejection cs of Some e \<Rightarrow> True | None \<Rightarrow> chains_fulfilled cs)"
proof (induction cs)
  case Nil
  then show ?case by (simp add: chains_fulfilled_def)
next
  case (Cons c cs)
  then obtain r where c: "c = ChainSettled r" by (cases c) auto
  show ?case
  proof (cases r)
    case (Inl e)
    with c show ?thesis by simp
  next
    case (Inr u)
    with c Cons show ?thesis by (auto simp: chains_fulfilled_def split: option.splits)
  qed
qed

lemma get_job_Some: "get_job j s = Some job \<longleftrightarrow> j < length (destroyJobs s) \<and> job = destroyJobs s ! j"
  by (auto simp: get_job_def)

lemma progress_browser:
  assumes "get_job j s = Some job" "phase job = AwaitingCloses"
    and "k < length (chains job)" "chains job ! k = ChainAwaitBrowser i" "browsers_settled job s"
  shows "enabled (ClosePromiseBrowser j k) s \<and>
         (\<exists>job'. get_job j (fire (ClosePromiseBrowser j k) s) = Some job' \<and> phase job' \<noteq> Returned \<and>
            browsers_settled job' (fire (ClosePromiseBrowser j k) s) \<and>
            job_measure job' (fire (ClosePromiseBrowser j k) s) < job_measure job s)"
proof -
  from assms have st: "settled i s"
    by (auto simp: browsers_settled_def chain_ready_def list_all_length split: chain.splits)
  from assms have gc: "get_chain j k s = Some (ChainAwaitBrowser i)"
    by (simp add: get_chain_def)
  from assms(1) have j: "j < length (destroyJobs s)" and jb: "destroyJobs s ! j = job"
    by (simp_all add: get_job_Some)
  define c' where "c' = next_chain i s"
  from next_chain_weight[OF st] have c': "chain_weight c' \<le> 1"
      "(case c' of ChainAwaitBrowser i' \<Rightarrow> False | _ \<Rightarrow> True)"
    by (simp_all add: c'_def)
  from destroy_closePromise_jobs[OF st, of j k] jb
  have cj: "destroyJobs (destroy_closePromise j k i s) = (destroyJobs s)[j := job\<lparr>chains := (chains job)[k := c']\<rparr>]"
    by (simp add: c'_def set_chain_def)
  let ?s' = "fire (ClosePromiseBrowser j k) s"
  let ?job' = "job\<lparr>chains := (chains job)[k := c']\<rparr>"
  from gc cj have dj: "destroyJobs ?s' = (destroyJobs s)[j := ?job']" by simp
  have inst: "instances ?s' = instances s" and q: "recycledDiskCacheDirs ?s' = recycledDiskCacheDirs s"
    using gc by simp_all
  from dj j have gj: "get_job j ?s' = Some ?job'" by (simp add: get_job_def)
  have ph: "phase ?job' \<noteq> Returned" using assms(2) by simp
  have bs: "browsers_settled ?job' ?s'"
  proof -
    have "chain_ready s c'" using c'(2) by (simp add: chain_ready_def split: chain.splits)
    with assms(5) have "browsers_settled ?job' s"
      by (simp add: browsers_settled_def list_all_update)
    with browsers_settled_cong[OF inst, of ?job'] show ?thesis by simp
  qed
  have "job_measure ?job' ?s' < job_measure job s"
    using sum_list_weight_update[OF assms(3), of c'] assms(2,4) c'(1) q
    by (simp add: job_measure_def queue_length_def chain_weight_def)
  with st gc gj ph bs show ?thesis by auto
qed

lemma progress_delete:
  assumes "get_job j s = Some job" "phase job = AwaitingCloses"
    and "k < length (chains job)" "chains job ! k = ChainAwaitDelete d" "browsers_settled job s"
  shows "enabled (ClosePromiseDeleted j k (Inr ())) s \<and>
         (\<exists>job'. get_job j (fire (ClosePromiseDeleted j k (Inr ())) s) = Some job' \<and>
            phase job' \<noteq> Returned \<and>
            browsers_settled job' (fire (ClosePromiseDeleted j k (Inr ())) s) \<and>
            job_measure job' (fire (ClosePromiseDeleted j k (Inr ())) s) < job_measure job s)"
proof -
  from assms have gc: "get_chain j k s = Some (ChainAwaitDelete d)"
    by (simp add: get_chain_def)
  from assms(1) have j: "j < length (destroyJobs s)" and jb: "destroyJobs s ! j = job"
    by (simp_all add: get_job_Some)
  let ?s' = "fire (ClosePromiseDeleted j k (Inr ())) s"
  let ?job' = "job\<lparr>chains := (chains job)[k := ChainSettled (Inr ())]\<rparr>"
  have dj: "destroyJobs ?s' = (destroyJobs s)[j := ?job']"
    using jb
    by (simp add: destroy_closePromise_deleted_def deleteDiskCacheDir_result_def
        deleteDiskCacheDir_settled_def set_chain_def promise_catch_def)
  have inst: "instances ?s' = instances s" and q: "recycledDiskCacheDirs ?s' = recycledDiskCacheDirs s"
    by simp_all
  from dj j have gj: "get_job j ?s' = Some ?job'" by (simp add: get_job_def)
  have ph: "phase ?job' \<noteq> Returned" using assms(2) by simp
  have bs: "browsers_settled ?job' ?s'"
  proof -
    have "chain_ready s (ChainSettled (Inr ()))" by (simp add: chain_ready_def)
    with assms(5) have "browsers_settled ?job' s"
      by (simp add: browsers_settled_def list_all_update)
    with browsers_settled_cong[OF inst, of ?job'] show ?thesis by simp
  qed
  have "job_measure ?job' ?s' < job_measure job s"
    using sum_list_weight_update[OF assms(3), of "ChainSettled (Inr ())"] assms(2,4) q
    by (simp add: job_measure_def queue_length_def chain_weight_def)
  with gc gj ph bs show ?thesis by auto
qed

lemma destroy_drain_jobs [simp]: "destroyJobs (destroy_drain q s) = destroyJobs s"
  by simp

lemma progress_all:
  assumes "get_job j s = Some job" "phase job = AwaitingCloses"
    and "list_all (\<lambda>c. case c of ChainSettled r \<Rightarrow> True | _ \<Rightarrow> False) (chains job)"
  shows "enabled (ClosePromisesAll j) s \<and>
         (DestroyReturned j (Inr ()) \<in> set (effects (fire (ClosePromisesAll j) s)) \<or>
          (\<exists>job'. get_job j (fire (ClosePromisesAll j) s) = Some job' \<and>
            phase job' \<noteq> Returned \<and>
            browsers_settled job' (fire (ClosePromisesAll j) s) \<and>
            job_measure job' (fire (ClosePromisesAll j) s) < job_measure job s))"
proof -
  from assms(1) have j: "j < length (destroyJobs s)" and jb: "destroyJobs s ! j = job"
    by (simp_all add: get_job_Some)
  from all_settled_all[OF assms(3)] assms(1,2) have en: "enabled (ClosePromisesAll j) s"
    by simp
  have rd: "list_all (chain_ready s') (chains job)" for s'
    using assms(3) by (induction "chains job") (auto simp: list_all_iff chain_ready_def split: chain.splits)
  show ?thesis
  proof (cases "chain_rejection (chains job)")
    case (Some e)
    with assms(1) have "DestroyReturned j (Inr ()) \<in> set (effects (fire (ClosePromisesAll j) s))"
      by (simp add: destroy_all_def)
    with en show ?thesis by simp
  next
    case None
    let ?s' = "fire (ClosePromisesAll j) s"
    let ?job' = "job\<lparr>phase := Draining (queue_length s) []\<rparr>"
    from None assms(1) jb have dj: "destroyJobs ?s' = (destroyJobs s)[j := ?job']"
      by (simp add: destroy_all_def set_phase_def queue_length_def split: option.splits)
    with j have gj: "get_job j ?s' = Some ?job'" by (simp add: get_job_def)
    have bs: "browsers_settled ?job' ?s'" using rd by (simp add: browsers_settled_def)
    have "job_measure ?job' ?s' < job_measure job s"
      using assms(2) by (simp add: job_measure_def)
    with en gj bs show ?thesis by auto
  qed
qed

lemma progress_drain:
  assumes "get_job j s = Some job" "phase job = Draining (Suc n) rs" "browsers_settled job s"
  shows "enabled (DrainDeleted j (Inr ())) s \<and>
         (\<exists>job'. get_job j (fire (DrainDeleted j (Inr ())) s) = Some job' \<and>
            phase job' \<noteq> Returned \<and>
            browsers_settled job' (fire (DrainDeleted j (Inr ())) s) \<and>
            job_measure job' (fire (DrainDeleted j (Inr ())) s) < job_measure job s)"
proof -
  from assms(1) have j: "j < length (destroyJobs s)" and jb: "destroyJobs s ! j = job"
    by (simp_all add: get_job_Some)
  let ?s' = "fire (DrainDeleted j (Inr ())) s"
  let ?job' = "job\<lparr>phase := Draining n (rs @ [Inr ()])\<rparr>"
  from assms(1,2) jb have dj: "destroyJobs ?s' = (destroyJobs s)[j := ?job']"
    by (simp add: destroy_drain_deleted_def set_phase_def deleteDiskCacheDir_result_def
        deleteDiskCacheDir_settled_def promise_catch_def)
  with j have gj: "get_job j ?s' = Some ?job'" by (simp add: get_job_def)
  have inst: "instances ?s' = instances s"
    using assms(1,2) by simp
  have bs: "browsers_settled ?job' ?s'"
    using assms(3) browsers_settled_cong[OF inst, of ?job'] by (simp add: browsers_settled_def)
  have "job_measure ?job' ?s' < job_measure job s"
    using assms(2) by (simp add: job_measure_def)
  with assms(1,2) gj bs show ?thesis by auto
qed

lemma progress_return:
  assumes "get_job j s = Some job" "phase job = Draining 0 rs"
  shows "enabled (DrainAll j) s \<and>
         DestroyReturned j (Inr ()) \<in> set (effects (fire (DrainAll j) s))"
  using assms by (simp add: destroy_returned_def)

lemma not_all_settled:
  "\<not> list_all (\<lambda>c. case c of ChainSettled r \<Rightarrow> True | _ \<Rightarrow> False) cs \<Longrightarrow>
     \<exists>k < length cs. (\<exists>i. cs ! k = ChainAwaitBrowser i) \<or> (\<exists>d. cs ! k = ChainAwaitDelete d)"
proof -
  assume "\<not> list_all (\<lambda>c. case c of ChainSettled r \<Rightarrow> True | _ \<Rightarrow> False) cs"
  then obtain k where k: "k < length cs"
    and n: "\<not> (case cs ! k of ChainSettled r \<Rightarrow> True | _ \<Rightarrow> False)"
    by (auto simp: list_all_length)
  from n have "(\<exists>i. cs ! k = ChainAwaitBrowser i) \<or> (\<exists>d. cs ! k = ChainAwaitDelete d)"
    by (cases "cs ! k") simp_all
  with k show ?thesis by blast
qed

lemma destroy_progress:
  assumes "get_job j s = Some job" "phase job \<noteq> Returned" "browsers_settled job s"
  shows "\<exists>e. enabled e s \<and>
           (DestroyReturned j (Inr ()) \<in> set (effects (fire e s)) \<or>
            (\<exists>job'. get_job j (fire e s) = Some job' \<and> phase job' \<noteq> Returned \<and>
               browsers_settled job' (fire e s) \<and>
               job_measure job' (fire e s) < job_measure job s))"
proof (cases "phase job")
  case AwaitingCloses
  show ?thesis
  proof (cases "list_all (\<lambda>c. case c of ChainSettled r \<Rightarrow> True | _ \<Rightarrow> False) (chains job)")
    case True
    from progress_all[OF assms(1) AwaitingCloses True] show ?thesis by blast
  next
    case False
    from not_all_settled[OF False] obtain k where k: "k < length (chains job)"
      and c: "(\<exists>i. chains job ! k = ChainAwaitBrowser i) \<or> (\<exists>d. chains job ! k = ChainAwaitDelete d)"
      by blast
    from c show ?thesis
    proof
      assume "\<exists>i. chains job ! k = ChainAwaitBrowser i"
      then obtain i where "chains job ! k = ChainAwaitBrowser i" ..
      from progress_browser[OF assms(1) AwaitingCloses k this assms(3)] show ?thesis by blast
    next
      assume "\<exists>d. chains job ! k = ChainAwaitDelete d"
      then obtain d where "chains job ! k = ChainAwaitDelete d" ..
      from progress_delete[OF assms(1) AwaitingCloses k this assms(3)] show ?thesis by blast
    qed
  qed
next
  case (Draining n rs)
  show ?thesis
  proof (cases n)
    case 0
    with Draining progress_return[OF assms(1), of rs] show ?thesis by blast
  next
    case (Suc m)
    with Draining progress_drain[OF assms(1) _ assms(3), of m rs] show ?thesis by blast
  qed
next
  case Returned
  with assms(2) show ?thesis by simp
qed

lemma destroy_finishes_aux:
  "get_job j s = Some job \<Longrightarrow> phase job \<noteq> Returned \<Longrightarrow> browsers_settled job s \<Longrightarrow>
     \<exists>es. DestroyReturned j (Inr ()) \<in> set (effects (run es s))"
proof (induction "job_measure job s" arbitrary: s job rule: less_induct)
  case less
  from destroy_progress[OF less.prems] obtain e where en: "enabled e s"
    and d: "DestroyReturned j (Inr ()) \<in> set (effects (fire e s)) \<or>
            (\<exists>job'. get_job j (fire e s) = Some job' \<and> phase job' \<noteq> Returned \<and>
               browsers_settled job' (fire e s) \<and>
               job_measure job' (fire e s) < job_measure job s)"
    by blast
  from en have st: "step e s = fire e s" by (simp add: step_def)
  from d show ?case
  proof
    assume "DestroyReturned j (Inr ()) \<in> set (effects (fire e s))"
    with st have "DestroyReturned j (Inr ()) \<in> set (effects (run [e] s))" by (simp add: run_def)
    then show ?thesis ..
  next
    assume "\<exists>job'. get_job j (fire e s) = Some job' \<and> phase job' \<noteq> Returned \<and>
               browsers_settled job' (fire e s) \<and>
               job_measure job' (fire e s) < job_measure job s"
    then obtain job' where j': "get_job j (fire e s) = Some job'" "phase job' \<noteq> Returned"
      "browsers_settled job' (fire e s)" "job_measure job' (fire e s) < job_measure job s"
      by blast
    from less.hyps[OF j'(4) j'(1) j'(2) j'(3)] obtain es
      where "DestroyReturned j (Inr ()) \<in> set (effects (run es (fire e s)))" ..
    with st have "DestroyReturned j (Inr ()) \<in> set (effects (run (e # es) s))"
      by (simp add: run_Cons)
    then show ?thesis ..
  qed
qed

lemma run_ok: "returns_ok s \<Longrightarrow> returns_ok (run es s)"
  unfolding run_def by (rule foldl_inv) (simp_all add: step_def fire_ok)

lemma constructor_ok: "returns_ok (constructor opts)"
  by (simp add: returns_ok_def constructor_def Let_def)

lemma destroy_jobs:
  "destroyJobs (destroy s) =
     destroyJobs s @ [\<lparr>chains = map ChainAwaitBrowser (activeInstances s @ retiredInstances s),
                        phase = AwaitingCloses\<rparr>]"
  by (simp add: destroy_def Let_def foldl_frame)

lemma destroy_can_finish:
  assumes "\<forall>i \<in> set (activeInstances s @ retiredInstances s). settled i s"
  shows "\<exists>es. DestroyReturned (length (destroyJobs s)) (Inr ()) \<in> set (effects (run (Destroy # es) s))"
proof -
  let ?job = "\<lparr>chains = map ChainAwaitBrowser (activeInstances s @ retiredInstances s),
               phase = AwaitingCloses\<rparr>"
  have gj: "get_job (length (destroyJobs s)) (destroy s) = Some ?job"
    by (simp add: get_job_def destroy_jobs)
  have "settled i (destroy s) = settled i s" for i
    by (simp add: settled_def)
  with assms have bs: "browsers_settled ?job (destroy s)"
    by (auto simp: browsers_settled_def list_all_iff chain_ready_def)
  from destroy_finishes_aux[OF gj _ bs] obtain es
    where "DestroyReturned (length (destroyJobs s)) (Inr ()) \<in> set (effects (run es (destroy s)))"
    by auto
  then have "DestroyReturned (length (destroyJobs s)) (Inr ()) \<in> set (effects (run (Destroy # es) s))"
    by (simp add: run_Cons step_def)
  then show ?thesis ..
qed


section \<open>Allocation in a reachable pool\<close>

text \<open>The list of recycled directories exists whenever recycling is switched on.\<close>

lemma fire_recycleDiskCache [simp]: "recycleDiskCache (fire e s) = recycleDiskCache s"
  by (cases e) (simp_all add: newPage_def split_beta split: option.splits chain.splits destroy_phase.splits)

lemma killInstance_recycleDiskCache_dirs [simp]:
  "(recycledDiskCacheDirs (killInstance_recycleDiskCache i s) = None) = (recycledDiskCacheDirs s = None)"
  by (simp add: killInstance_recycleDiskCache_def split: option.splits)

lemma launchInstance_dirs [simp]:
  "(recycledDiskCacheDirs (snd (launchInstance now s)) = None) = (recycledDiskCacheDirs s = None)"
  by (simp add: launchInstance_def launchPuppeteerFunction_def Let_def split_beta
      split: promise.splits option.splits list.splits)

lemma newPage_dirs [simp]:
  "(recycledDiskCacheDirs (newPage now s) = None) = (recycledDiskCacheDirs s = None)"
  by (simp add: newPage_def newPage_sync_def Let_def split_beta split: option.splits)













lemma retireInstance_tasks [simp]: "tasks (retireInstance i s) = tasks s"
  by (simp add: retireInstance_def)




section \<open>Allocation after destroy\<close>





section \<open>Disk cache recycling in headless mode\<close>

text \<open>
  Claim C2 says that with \<open>recycleDiskCache\<close> set and headless launch options the
  constructor warns and switches recycling off for the session. The constructor does
  log the warning, whose text ends "Disk cache will not be recycled", but it changes
  nothing else: the list of recycled directories is created and the launch function
  tests the option as it was passed. Below, with \<open>headless: true\<close>, the first launch
  creates a directory and passes it as \<open>--disk-cache-dir\<close>; when that browser has been
  killed its directory is put on the list, and the launch of the next instance takes it
  off the list and passes it again.
\<close>

theorem headless_recycling_not_disabled:
  "effects (constructor headless_recycle_options) = [LogWarning headful_warning] \<and>
   recycledDiskCacheDirs
     (run [NewPage 0, MkdtempSettled 0 (Inr ''/tmp/puppeteer_disk_cache-a''),
           LaunchSettled 0 (Some ''/tmp/puppeteer_disk_cache-a'') (Inr (7, Some 3)),
           BrowserSettledForPage 0, PageSettled 0 (Inr 9), Retire 7, FilterSettled 7 [0],
           TargetDestroyed 0 Page, PageCloseKillTimeout 0, BrowserSettledForKill 0,
           CloseSettledForKill 0 (Inr ())]
        (constructor headless_recycle_options))
     = Some [''/tmp/puppeteer_disk_cache-a''] \<and>
   recycledDiskCacheDirs
     (run [NewPage 0, MkdtempSettled 0 (Inr ''/tmp/puppeteer_disk_cache-a''),
           LaunchSettled 0 (Some ''/tmp/puppeteer_disk_cache-a'') (Inr (7, Some 3)),
           BrowserSettledForPage 0, PageSettled 0 (Inr 9), Retire 7, FilterSettled 7 [0],
           TargetDestroyed 0 Page, PageCloseKillTimeout 0, BrowserSettledForKill 0,
           CloseSettledForKill 0 (Inr ()), NewPage 10]
        (constructor headless_recycle_options))
     = Some [] \<and>
   filter (\<lambda>x. case x of LaunchCalled i as \<Rightarrow> True | MkdtempCalled i \<Rightarrow> True | _ \<Rightarrow> False)
     (effects
        (run [NewPage 0, MkdtempSettled 0 (Inr ''/tmp/puppeteer_disk_cache-a''),
              LaunchSettled 0 (Some ''/tmp/puppeteer_disk_cache-a'') (Inr (7, Some 3)),
              BrowserSettledForPage 0, PageSettled 0 (Inr 9), Retire 7, FilterSettled 7 [0],
              TargetDestroyed 0 Page, PageCloseKillTimeout 0, BrowserSettledForKill 0,
              CloseSettledForKill 0 (Inr ()), NewPage 10]
           (constructor headless_recycle_options)))
     = [MkdtempCalled 0, LaunchCalled 0 [''--disk-cache-dir=/tmp/puppeteer_disk_cache-a''],
        LaunchCalled 1 [''--disk-cache-dir=/tmp/puppeteer_disk_cache-a'']]"
  by code_simp


section \<open>Active and retired instances\<close>

text \<open>
  Claim C3. After every sequence of calls of the public methods and of deliveries of
  events, timers and continuations, starting from a freshly constructed pool, no
  instance id is a key of both \<open>activeInstances\<close> and \<open>retiredInstances\<close>.
\<close>

theorem active_retired_disjoint:
  "set (activeInstances (run es (constructor opts))) \<inter>
   set (retiredInstances (run es (constructor opts))) = {}"
  using run_inv[OF constructor_inv, of es opts] by (simp add: maps_inv_def)


theorem active_retired_disjoint_witness:
  "activeInstances (run [NewPage 0, NewPage 1, NewPage 2, NewPage 3] (constructor lifetime_options)) = [1] \<and>
   retiredInstances (run [NewPage 0, NewPage 1, NewPage 2, NewPage 3] (constructor lifetime_options)) = [0] \<and>
   set (activeInstances (run [NewPage 0, NewPage 1, NewPage 2, NewPage 3] (constructor lifetime_options))) \<inter>
   set (retiredInstances (run [NewPage 0, NewPage 1, NewPage 2, NewPage 3] (constructor lifetime_options))) = {}"
proof -
  have a: "activeInstances (run [NewPage 0, NewPage 1, NewPage 2, NewPage 3] (constructor lifetime_options)) = [1]"
    "retiredInstances (run [NewPage 0, NewPage 1, NewPage 2, NewPage 3] (constructor lifetime_options)) = [0]"
    by code_simp+
  from active_retired_disjoint[of "[NewPage 0, NewPage 1, NewPage 2, NewPage 3]" lifetime_options] a
  show ?thesis by simp
qed

section \<open>The lifetime cap\<close>

text \<open>
  Claim C4. Between any two blocks (so outside the synchronous body of \<open>newPage\<close>) every
  instance in \<open>activeInstances\<close> has \<open>totalPages\<close> strictly below
  \<open>retireInstanceAfterRequestCount\<close>. And when the increment in \<open>newPage\<close> brings
  \<open>totalPages\<close> of the instance it uses to the cap or above, then at the end of the
  synchronous part of \<open>newPage\<close>, where it starts to wait for the browser and before it
  asks for a page, that instance is in \<open>retiredInstances\<close> and no longer in
  \<open>activeInstances\<close>.
\<close>

theorem active_below_retire_count:
  "(\<forall>i \<in> set (activeInstances (run es (constructor opts))).
       totalPages (instances (run es (constructor opts)) i)
         < retireInstanceAfterRequestCount (run es (constructor opts))) \<and>
   (retireInstanceAfterRequestCount s
      \<le> totalPages (instances (snd (newPage_sync now s)) (fst (newPage_sync now s))) \<longrightarrow>
    fst (newPage_sync now s) \<in> set (retiredInstances (snd (newPage_sync now s))) \<and>
    fst (newPage_sync now s) \<notin> set (activeInstances (snd (newPage_sync now s))) \<and>
    pending (AwaitBrowserForPage (fst (newPage_sync now s))) (snd (newPage_sync now s)))"
proof (intro conjI impI)
  show "\<forall>i \<in> set (activeInstances (run es (constructor opts))).
       totalPages (instances (run es (constructor opts)) i)
         < retireInstanceAfterRequestCount (run es (constructor opts))"
    using run_cap[OF constructor_cap, of es opts] by (simp add: cap_inv_def)
next
  assume a: "retireInstanceAfterRequestCount s
      \<le> totalPages (instances (snd (newPage_sync now s)) (fst (newPage_sync now s)))"
  then show "fst (newPage_sync now s) \<in> set (retiredInstances (snd (newPage_sync now s)))"
    by (simp add: newPage_sync_retired)
  from a show "fst (newPage_sync now s) \<notin> set (activeInstances (snd (newPage_sync now s)))"
    by (simp add: newPage_sync_active)
  show "pending (AwaitBrowserForPage (fst (newPage_sync now s))) (snd (newPage_sync now s))"
    by (simp add: pending_def newPage_sync_tasks)
qed


theorem active_below_retire_count_witness:
  "activeInstances (run [NewPage 0, NewPage 1, NewPage 2, NewPage 3] (constructor lifetime_options)) = [1] \<and>
   totalPages (instances (run [NewPage 0, NewPage 1, NewPage 2, NewPage 3] (constructor lifetime_options)) 1)
     < retireInstanceAfterRequestCount
         (run [NewPage 0, NewPage 1, NewPage 2, NewPage 3] (constructor lifetime_options)) \<and>
   fst (newPage_sync 2 (run [NewPage 0, NewPage 1] (constructor lifetime_options))) = 0 \<and>
   0 \<in> set (retiredInstances
              (snd (newPage_sync 2 (run [NewPage 0, NewPage 1] (constructor lifetime_options))))) \<and>
   0 \<notin> set (activeInstances
              (snd (newPage_sync 2 (run [NewPage 0, NewPage 1] (constructor lifetime_options)))))"
proof -
  have a: "activeInstances (run [NewPage 0, NewPage 1, NewPage 2, NewPage 3]
             (constructor lifetime_options)) = [1]"
    by code_simp
  have b: "retireInstanceAfterRequestCount (run [NewPage 0, NewPage 1] (constructor lifetime_options))
      \<le> totalPages
           (instances (snd (newPage_sync 2 (run [NewPage 0, NewPage 1] (constructor lifetime_options))))
              (fst (newPage_sync 2 (run [NewPage 0, NewPage 1] (constructor lifetime_options)))))"
    by code_simp
  have c: "fst (newPage_sync 2 (run [NewPage 0, NewPage 1] (constructor lifetime_options))) = 0"
    by code_simp
  from active_below_retire_count
         [of "[NewPage 0, NewPage 1, NewPage 2, NewPage 3]" lifetime_options
             "run [NewPage 0, NewPage 1] (constructor lifetime_options)" 2]
       a b c
  show ?thesis by simp
qed

section \<open>Selection of the instance\<close>

text \<open>
  Claim C5. A call of \<open>newPage\<close> launches a new instance exactly when every instance in
  \<open>activeInstances\<close> has \<open>activePages \<ge> maxOpenPagesPerInstance\<close>: then a new id is handed
  out, the launch function is entered (it asks for a cache directory or calls the user's
  launch function, unless it throws on a missing list), and the call uses the new
  instance. Otherwise no id is handed out, no continuation of a launch is set up, nothing
  but a log record is emitted, and the call uses an instance of \<open>activeInstances\<close>
  whose \<open>activePages\<close> is strictly below the limit.
\<close>

theorem newPage_launches_iff_saturated:
  "if (\<forall>i \<in> set (activeInstances s). maxOpenPagesPerInstance s \<le> activePages (instances s i))
   then fst (newPage_sync now s) = fst (launchInstance now s) \<and>
        fst (newPage_sync now s) = browserCounter s \<and>
        browserCounter (newPage now s) = Suc (browserCounter s) \<and>
        length (tasks (newPage now s)) = length (tasks s) + 2 \<and>
        totalPages (instances (newPage now s) (browserCounter s)) = 1 \<and>
        activePages (instances (newPage now s) (browserCounter s)) = 1 \<and>
        (MkdtempCalled (browserCounter s) \<in> set (effects (newPage now s)) \<or>
         (\<exists>as. LaunchCalled (browserCounter s) as \<in> set (effects (newPage now s))) \<or>
         (recycleDiskCache s \<and> recycledDiskCacheDirs s = None))
   else browserCounter (newPage now s) = browserCounter s \<and>
        tasks (newPage now s) = tasks s @ [AwaitBrowserForPage (fst (newPage_sync now s))] \<and>
        set (effects (newPage now s))
          \<subseteq> insert (LogDebug ''PuppeteerPool: retiring browser'') (set (effects s)) \<and>
        fst (newPage_sync now s) \<in> set (activeInstances s) \<and>
        activePages (instances s (fst (newPage_sync now s))) < maxOpenPagesPerInstance s"
proof (cases "select_instance s")
  case None
  with newPage_launch_effects[OF None, of now] show ?thesis
    by (simp add: select_instance_None[symmetric] newPage_def newPage_sync_def Let_def split_beta
        launchInstance_tasks launchInstance_instances_new)
next
  case (Some i)
  with select_instance_active[OF Some] newPage_select_effects[OF Some, of now] show ?thesis
    by (auto simp: select_instance_None[symmetric] newPage_def newPage_sync_def Let_def split_beta)
qed

theorem newPage_launches_iff_saturated_witness:
  "fst (newPage_sync 1 (run [NewPage 0] (constructor saturation_options))) = 0 \<and>
   browserCounter (newPage 1 (run [NewPage 0] (constructor saturation_options))) = 1 \<and>
   fst (newPage_sync 2 (run [NewPage 0, NewPage 1] (constructor saturation_options))) = 1 \<and>
   browserCounter (newPage 2 (run [NewPage 0, NewPage 1] (constructor saturation_options))) = 2"
proof -
  have a: "\<not> (\<forall>i \<in> set (activeInstances (run [NewPage 0] (constructor saturation_options))).
             maxOpenPagesPerInstance (run [NewPage 0] (constructor saturation_options))
               \<le> activePages (instances (run [NewPage 0] (constructor saturation_options)) i))"
    by code_simp
  have b: "\<forall>i \<in> set (activeInstances (run [NewPage 0, NewPage 1] (constructor saturation_options))).
             maxOpenPagesPerInstance (run [NewPage 0, NewPage 1] (constructor saturation_options))
               \<le> activePages (instances (run [NewPage 0, NewPage 1] (constructor saturation_options)) i)"
    by code_simp
  have c: "browserCounter (run [NewPage 0] (constructor saturation_options)) = 1"
    "browserCounter (run [NewPage 0, NewPage 1] (constructor saturation_options)) = 1"
    "activeInstances (run [NewPage 0] (constructor saturation_options)) = [0]"
    by code_simp+
  from newPage_launches_iff_saturated
         [of "run [NewPage 0] (constructor saturation_options)" 1]
       newPage_launches_iff_saturated
         [of "run [NewPage 0, NewPage 1] (constructor saturation_options)" 2]
       a b c
  show ?thesis by simp
qed

section \<open>The page counters of an instance\<close>






section \<open>Closing and deleting in destroy\<close>

text \<open>
  Claim C7 says that \<open>destroy\<close> deletes no cache directory before the \<open>close\<close> of every
  browser has settled. In the chain that \<open>destroy\<close> builds for a browser, the callback
  that calls \<open>browser.close()\<close> returns the browser, not the promise of \<open>close\<close>, so the
  next callback starts the deletion of the browser's directory in the same turn. Below,
  one browser with a cache directory is running when \<open>destroy\<close> is called: the deletion
  of the directory is started right after \<open>close\<close> has been requested, and \<open>close\<close> is
  still in flight.
\<close>

theorem destroy_deletes_before_close_settles:
  "effects
     (run [NewPage 0, MkdtempSettled 0 (Inr ''/tmp/puppeteer_disk_cache-a''),
           LaunchSettled 0 (Some ''/tmp/puppeteer_disk_cache-a'') (Inr (7, Some 3)),
           Destroy, ClosePromiseBrowser 0 0]
        (constructor recycle_options))
   = [LogDebug ''PuppeteerPool: launching new browser'', MkdtempCalled 0,
      LaunchCalled 0 [''--disk-cache-dir=/tmp/puppeteer_disk_cache-a''],
      ClearInterval, RemoveSigintListener, CloseRequested 7,
      LogDebug ''PuppeteerPool: Deleting disk cache directory'',
      DeleteDir ''/tmp/puppeteer_disk_cache-a''] \<and>
   pending (CloseInFlight 7)
     (run [NewPage 0, MkdtempSettled 0 (Inr ''/tmp/puppeteer_disk_cache-a''),
           LaunchSettled 0 (Some ''/tmp/puppeteer_disk_cache-a'') (Inr (7, Some 3)),
           Destroy, ClosePromiseBrowser 0 0]
        (constructor recycle_options))"
  by code_simp


section \<open>The completion of destroy\<close>

text \<open>
  Claim C8 says that the promise returned by \<open>destroy\<close> always succeeds and that the
  errors inside, of browser closes and of directory deletions, are logged. The promise
  never rejects, but a failed close is not logged: the callback of \<open>destroy\<close> that calls
  \<open>browser.close()\<close> drops the promise of \<open>close\<close>, so its rejection reaches neither the
  final \<open>.catch\<close> of \<open>destroy\<close>, whose record is \<open>cannot close the browsers\<close>, nor any
  other handler. Below, one browser with a cache directory is running when \<open>destroy\<close> is
  called; its \<open>close\<close> is rejected and the deletion of its directory fails. Both
  failures are delivered: the failed deletion is logged, the promise of \<open>destroy\<close> is
  fulfilled, and the log has no record of the failed close. In the second run a browser
  is retired and killed by the reaper, whose \<open>_killInstance\<close> returns the promise of
  \<open>close\<close>: there the same rejection is logged.
\<close>

theorem destroy_drops_close_error:
  "enabled (CloseSettled 7 (Inl (Error ''Protocol error'')))
     (run [NewPage 0, MkdtempSettled 0 (Inr ''/tmp/puppeteer_disk_cache-a''),
           LaunchSettled 0 (Some ''/tmp/puppeteer_disk_cache-a'') (Inr (7, Some 3)),
           Destroy, ClosePromiseBrowser 0 0]
        (constructor recycle_options)) \<and>
   effects
     (run [NewPage 0, MkdtempSettled 0 (Inr ''/tmp/puppeteer_disk_cache-a''),
           LaunchSettled 0 (Some ''/tmp/puppeteer_disk_cache-a'') (Inr (7, Some 3)),
           Destroy, ClosePromiseBrowser 0 0,
           CloseSettled 7 (Inl (Error ''Protocol error'')),
           ClosePromiseDeleted 0 0 (Inl (Error ''EBUSY'')),
           ClosePromisesAll 0, DrainAll 0]
        (constructor recycle_options))
   = [LogDebug ''PuppeteerPool: launching new browser'', MkdtempCalled 0,
      LaunchCalled 0 [''--disk-cache-dir=/tmp/puppeteer_disk_cache-a''],
      ClearInterval, RemoveSigintListener, CloseRequested 7,
      LogDebug ''PuppeteerPool: Deleting disk cache directory'',
      DeleteDir ''/tmp/puppeteer_disk_cache-a'',
      LogWarning ''PuppeteerPool: Cannot delete Chrome disk cache directory'',
      DestroyReturned 0 (Inr ())] \<and>
   effects
     (run [NewPage 0, LaunchSettled 0 None (Inr (7, Some 3)), Retire 7, FilterSettled 7 [0],
           ReaperTick 400000, BrowserSettledForKill 0,
           CloseSettledForKill 0 (Inl (Error ''Protocol error''))]
        (constructor default_options))
   = [LogDebug ''PuppeteerPool: launching new browser'', LaunchCalled 0 [],
      LogDebug ''PuppeteerPool: retiring browser'', RetireReturned (Inr ()),
      LogDebug ''PuppeteerPool: retired browsers count'',
      LogDebug ''PuppeteerPool: killing retired browser after period of inactivity'',
      LogDebug ''PuppeteerPool: killing browser'', CloseRequested 7,
      LogException ''PuppeteerPool: cannot close the browser instance'']"
  by code_simp

section \<open>Retiring twice\<close>





section \<open>A failed page creation\<close>

text \<open>
  Claim C10. When \<open>browser.newPage()\<close> rejects, the promise of \<open>newPage\<close> rejects with the
  same error (the last effect of the block), and the block leaves \<open>activePages\<close>,
  \<open>totalPages\<close> and \<open>lastPageOpenedAt\<close> of every instance as they are; the block also
  retires the instance. The values they have are those set before the first \<open>await\<close>:
  both counters of the chosen instance incremented by one, the time stamp set to the
  clock. And the only block that lowers \<open>activePages\<close> of a created instance is the
  delivery of \<open>targetdestroyed\<close> with a target of type \<open>page\<close> or \<open>other\<close>.
\<close>

theorem failed_page_creation_keeps_counters:
  "(pending (AwaitPage i) s \<longrightarrow>
      last (effects (step (PageSettled i (Inl err)) s)) = NewPageReturned (Inl err) \<and>
      activePages (instances (step (PageSettled i (Inl err)) s) x) = activePages (instances s x) \<and>
      totalPages (instances (step (PageSettled i (Inl err)) s) x) = totalPages (instances s x) \<and>
      lastPageOpenedAt (instances (step (PageSettled i (Inl err)) s) x)
        = lastPageOpenedAt (instances s x) \<and>
      i \<notin> set (activeInstances (step (PageSettled i (Inl err)) s))) \<and>
   activePages (instances (newPage now s) (fst (newPage_sync now s)))
     = (case select_instance s of Some j \<Rightarrow> activePages (instances s j) + 1 | None \<Rightarrow> 1) \<and>
   totalPages (instances (newPage now s) (fst (newPage_sync now s)))
     = (case select_instance s of Some j \<Rightarrow> totalPages (instances s j) + 1 | None \<Rightarrow> 1) \<and>
   lastPageOpenedAt (instances (newPage now s) (fst (newPage_sync now s))) = now \<and>
   (x < browserCounter s \<and> activePages (instances (step e s) x) < activePages (instances s x) \<longrightarrow>
      (\<exists>ty. e = TargetDestroyed x ty \<and> (ty = Page \<or> ty = Other)))"
proof (intro conjI impI)
  assume "pending (AwaitPage i) s"
  then show "last (effects (step (PageSettled i (Inl err)) s)) = NewPageReturned (Inl err)"
    by (simp add: step_def newPage_page_def newPage_catch_def)
next
  show "activePages (instances (newPage now s) (fst (newPage_sync now s)))
     = (case select_instance s of Some j \<Rightarrow> activePages (instances s j) + 1 | None \<Rightarrow> 1)"
    by (simp add: newPage_def newPage_sync_activePages)
  show "totalPages (instances (newPage now s) (fst (newPage_sync now s)))
     = (case select_instance s of Some j \<Rightarrow> totalPages (instances s j) + 1 | None \<Rightarrow> 1)"
    by (simp add: newPage_def newPage_sync_totalPages)
  show "lastPageOpenedAt (instances (newPage now s) (fst (newPage_sync now s))) = now"
    by (simp add: newPage_def newPage_sync_lastPageOpenedAt)
next
  assume "x < browserCounter s \<and> activePages (instances (step e s) x) < activePages (instances s x)"
  then show "\<exists>ty. e = TargetDestroyed x ty \<and> (ty = Page \<or> ty = Other)"
    using fire_activePages_decrease[of x s e] by (auto simp: step_def split: if_splits)
qed (simp_all add: step_def newPage_page_def newPage_catch_def)


theorem failed_page_creation_keeps_counters_witness:
  "last (effects (run [NewPage 5, LaunchSettled 0 None (Inr (7, Some 3)), BrowserSettledForPage 0,
                       PageSettled 0 (Inl (Error ''Target closed''))] (constructor default_options)))
     = NewPageReturned (Inl (Error ''Target closed'')) \<and>
   activePages (instances (run [NewPage 5, LaunchSettled 0 None (Inr (7, Some 3)), BrowserSettledForPage 0,
                       PageSettled 0 (Inl (Error ''Target closed''))] (constructor default_options)) 0) = 1 \<and>
   totalPages (instances (run [NewPage 5, LaunchSettled 0 None (Inr (7, Some 3)), BrowserSettledForPage 0,
                       PageSettled 0 (Inl (Error ''Target closed''))] (constructor default_options)) 0) = 1 \<and>
   lastPageOpenedAt (instances (run [NewPage 5, LaunchSettled 0 None (Inr (7, Some 3)), BrowserSettledForPage 0,
                       PageSettled 0 (Inl (Error ''Target closed''))] (constructor default_options)) 0) = 5"
proof -
  have a: "pending (AwaitPage 0)
             (run [NewPage 5, LaunchSettled 0 None (Inr (7, Some 3)), BrowserSettledForPage 0]
                (constructor default_options))"
    by code_simp
  have b: "activePages (instances (run [NewPage 5, LaunchSettled 0 None (Inr (7, Some 3)), BrowserSettledForPage 0]
                (constructor default_options)) 0) = 1"
    "totalPages (instances (run [NewPage 5, LaunchSettled 0 None (Inr (7, Some 3)), BrowserSettledForPage 0]
                (constructor default_options)) 0) = 1"
    "lastPageOpenedAt (instances (run [NewPage 5, LaunchSettled 0 None (Inr (7, Some 3)), BrowserSettledForPage 0]
                (constructor default_options)) 0) = 5"
    by code_simp+
  have c: "run [NewPage 5, LaunchSettled 0 None (Inr (7, Some 3)), BrowserSettledForPage 0,
                PageSettled 0 (Inl (Error ''Target closed''))] (constructor default_options)
           = step (PageSettled 0 (Inl (Error ''Target closed'')))
               (run [NewPage 5, LaunchSettled 0 None (Inr (7, Some 3)), BrowserSettledForPage 0]
                  (constructor default_options))"
    by (simp add: run_def)
  from failed_page_creation_keeps_counters
         [of 0 "run [NewPage 5, LaunchSettled 0 None (Inr (7, Some 3)), BrowserSettledForPage 0]
                  (constructor default_options)" "Error ''Target closed''" 0]
       a b c
  show ?thesis by simp
qed


end
